theory Spec2Isabelle
  imports Complex_Main
begin

section \<open>Errors and results\<close>

text \<open>
  The Python sources raise exceptions; in the embedding every function that can raise
  returns \<open>error + 'a\<close>, with \<open>Inl\<close> the exception. Tensor entries are 32-bit floats
  in the source; the embedding computes over the real numbers, so rounding and overflow
  are not modelled.
\<close>

datatype error = IndexError | ZeroDivisionError | RuntimeError

definition bind_e :: "error + 'a \<Rightarrow> ('a \<Rightarrow> error + 'b) \<Rightarrow> error + 'b" where
  "bind_e r k = (case r of Inl e \<Rightarrow> Inl e | Inr v \<Rightarrow> k v)"

section \<open>The conservative-field integrator (examples/toy_matching.py)\<close>

text \<open>
  A 2-D tensor is a list of rows, a 3-D tensor a list of rows of points. The grid
  \<open>u\<close> is indexed \<open>u ! iy ! ix\<close>, the field \<open>scores ! iy ! ix ! c\<close> with \<open>c = 0\<close> the
  x-component and \<open>c = 1\<close> the y-component.
\<close>

type_synonym grid = "real list list"
type_synonym field = "real list list list"

text \<open>\<open>scores\<close> is either a tensor or a score model (\<open>Union[torch.Tensor, DataScoreModel]\<close>);
  a score model maps a point to a point and is applied row by row.\<close>

datatype scores_arg = Tensor field | Model "real list \<Rightarrow> real list"

text \<open>\<open>t[i, j]\<close> and \<open>t[i, j] = v\<close> with non-negative indices: IndexError out of range.\<close>

definition get2 :: "grid \<Rightarrow> nat \<Rightarrow> nat \<Rightarrow> error + real" where
  "get2 t i j = (if i < length t \<and> j < length (t ! i) then Inr (t ! i ! j) else Inl IndexError)"

definition set2 :: "grid \<Rightarrow> nat \<Rightarrow> nat \<Rightarrow> real \<Rightarrow> error + grid" where
  "set2 t i j v =
     (if i < length t \<and> j < length (t ! i) then Inr (t[i := (t ! i)[j := v]]) else Inl IndexError)"

text \<open>\<open>scores.new_zeros((n_y, n_x))\<close>: a negative dimension is a RuntimeError.\<close>

definition new_zeros :: "int \<Rightarrow> int \<Rightarrow> error + grid" where
  "new_zeros n_y n_x =
     (if n_y < 0 \<or> n_x < 0 then Inl RuntimeError
      else Inr (replicate (nat n_y) (replicate (nat n_x) 0)))"

text \<open>\<open>(lim[1] - lim[0]) / (n - 1)\<close> on Python numbers: dividing by zero raises.\<close>

definition spacing :: "real \<times> real \<Rightarrow> int \<Rightarrow> error + real" where
  "spacing ext n =
     (if n - 1 = 0 then Inl ZeroDivisionError else Inr ((snd ext - fst ext) / of_int (n - 1)))"

text \<open>\<open>scores[..., c]\<close>: the last axis must be longer than \<open>c\<close>.\<close>

definition select_last :: "field \<Rightarrow> nat \<Rightarrow> error + grid" where
  "select_last s c =
     (if list_all (list_all (\<lambda>p. c < length p)) s then Inr (map (map (\<lambda>p. p ! c)) s)
      else Inl IndexError)"

text \<open>\<open>0.5 * (a + b) * h\<close>, elementwise on two rows.\<close>

definition trapezoid :: "real \<Rightarrow> real list \<Rightarrow> real list \<Rightarrow> real list" where
  "trapezoid h a b = map2 (\<lambda>p q. 0.5 * (p + q) * h) a b"

text \<open>\<open>tx = 0.5 * (scores[:, 1:, 0] + scores[:, :-1, 0]) * hx\<close>, on \<open>sx = scores[..., 0]\<close>.\<close>

definition tx_of :: "grid \<Rightarrow> real \<Rightarrow> grid" where
  "tx_of sx hx = map (\<lambda>row. trapezoid hx (tl row) (butlast row)) sx"

text \<open>\<open>ty = 0.5 * (scores[1:, :, 1] + scores[:-1, :, 1]) * hy\<close>, on \<open>sy = scores[..., 1]\<close>.\<close>

definition ty_of :: "grid \<Rightarrow> real \<Rightarrow> grid" where
  "ty_of sy hy = map2 (trapezoid hy) (tl sy) (butlast sy)"

text \<open>The inner loop \<open>for iy in range(1, n_y): u[iy, ix] = ty[iy - 1, ix] + u[iy - 1, ix]\<close>,
  over the list of the remaining \<open>iy\<close>.\<close>

fun walk_up :: "grid \<Rightarrow> nat \<Rightarrow> nat list \<Rightarrow> grid \<Rightarrow> error + grid" where
  "walk_up ty ix [] u = Inr u"
| "walk_up ty ix (iy # iys) u =
     bind_e (get2 ty (iy - 1) ix) (\<lambda>a.
     bind_e (get2 u (iy - 1) ix) (\<lambda>b.
     bind_e (set2 u iy ix (a + b)) (\<lambda>u'. walk_up ty ix iys u')))"

text \<open>The outer loop \<open>for ix in range(n_x)\<close>, over the list of the remaining \<open>ix\<close>.\<close>

fun walk_right :: "grid \<Rightarrow> grid \<Rightarrow> nat \<Rightarrow> nat list \<Rightarrow> grid \<Rightarrow> error + grid" where
  "walk_right tx ty n_y [] u = Inr u"
| "walk_right tx ty n_y (ix # ixs) u =
     bind_e (if ix > 0
             then bind_e (get2 tx 0 (ix - 1)) (\<lambda>a.
                  bind_e (get2 u 0 (ix - 1)) (\<lambda>b. set2 u 0 ix (a + b)))
             else Inr u) (\<lambda>u1.
     bind_e (walk_up ty ix [1..<n_y] u1) (\<lambda>u2. walk_right tx ty n_y ixs u2))"

text \<open>\<open>torch.linspace(a, b, n)\<close>: a negative number of steps is a RuntimeError.\<close>

definition linspace :: "real \<Rightarrow> real \<Rightarrow> int \<Rightarrow> error + real list" where
  "linspace a b n =
     (if n < 0 then Inl RuntimeError
      else if n = 1 then Inr [a]
      else Inr (map (\<lambda>i. a + real i * ((b - a) / of_int (n - 1))) [0..<nat n]))"

text \<open>
  \<open>scores_rect2d\<close>: the grid of points \<open>UV[iy, ix] = (X[ix], Y[iy])\<close>, flattened by
  \<open>view(-1, 2)\<close>, passed through the score model and reshaped by \<open>view(n_y, n_x, 2)\<close>
  (a RuntimeError unless the model returns as many numbers as it was given). The model
  acts on each point, so flattening and reshaping cancel.
\<close>

definition scores_rect2d ::
  "(real list \<Rightarrow> real list) \<Rightarrow> real \<times> real \<Rightarrow> real \<times> real \<Rightarrow> int \<Rightarrow> int \<Rightarrow> error + field" where
  "scores_rect2d score_model xlim ylim n_x n_y =
     bind_e (linspace (fst xlim) (snd xlim) n_x) (\<lambda>X.
     bind_e (linspace (fst ylim) (snd ylim) n_y) (\<lambda>Y.
       let UV = map (\<lambda>y. map (\<lambda>x. [x, y]) X) Y;
           scores = map (map score_model) UV
       in if list_all (list_all (\<lambda>p. length p = 2)) scores then Inr scores
          else Inl RuntimeError))"

definition integrate_scores_rect2d ::
  "scores_arg \<Rightarrow> real \<times> real \<Rightarrow> real \<times> real \<Rightarrow> int \<Rightarrow> int \<Rightarrow> real \<Rightarrow> error + grid" where
  "integrate_scores_rect2d scores xlim ylim n_x n_y c =
     bind_e (case scores of
               Tensor t \<Rightarrow> Inr t
             | Model f \<Rightarrow> scores_rect2d f xlim ylim n_x n_y) (\<lambda>s.
     bind_e (new_zeros n_y n_x) (\<lambda>u.
     bind_e (spacing xlim n_x) (\<lambda>hx.
     bind_e (spacing ylim n_y) (\<lambda>hy.
     bind_e (select_last s 0) (\<lambda>sx.
     bind_e (select_last s 1) (\<lambda>sy.
     bind_e (set2 u 0 0 c) (\<lambda>u0.
       walk_right (tx_of sx hx) (ty_of sy hy) (nat n_y) [0..<nat n_x] u0)))))))"

section \<open>The score-matching losses (losses.py)\<close>

text \<open>
  A batch is a \<open>B \<times> D\<close> tensor, a list of \<open>B\<close> rows. The empty batch is \<open>[]\<close>.
  A score model maps a point of \<open>\<real>\<^sup>D\<close> to a point of \<open>\<real>\<^sup>D\<close> and is applied to every row
  of a batch; a conditional score model also takes the row's noise-level index.
  Automatic differentiation is outside the sources, so a differentiable score model
  carries its Jacobian \<open>jac m x ! i ! j = \<partial>f\<^sub>i/\<partial>x\<^sub>j\<close> next to its forward map.
\<close>

type_synonym batch = "real list list"

record score_model =
  score :: "real list \<Rightarrow> real list"
  jac :: "real list \<Rightarrow> real list list"

text \<open>
  A float that the real numbers cannot follow is \<open>NonFinite\<close>: the \<open>inf\<close> of a tensor
  division by zero and the \<open>nan\<close> of the mean of an empty tensor. In the operations
  used here (\<open>+\<close>, \<open>-\<close>, \<open>*\<close>, \<open>**2\<close>, \<open>sum\<close>, \<open>mean\<close>) a non-finite operand gives a
  non-finite result.
\<close>

datatype fval = Fin real | NonFinite

definition lift2 :: "(real \<Rightarrow> real \<Rightarrow> real) \<Rightarrow> fval \<Rightarrow> fval \<Rightarrow> fval" where
  "lift2 f a b = (case a of NonFinite \<Rightarrow> NonFinite
                  | Fin p \<Rightarrow> (case b of NonFinite \<Rightarrow> NonFinite | Fin q \<Rightarrow> Fin (f p q)))"

definition fsum :: "fval list \<Rightarrow> fval" where
  "fsum xs = foldr (lift2 (+)) xs (Fin 0)"

text \<open>\<open>t.mean()\<close> of a 1-D tensor: \<open>nan\<close> when the tensor is empty.\<close>

definition fmean :: "fval list \<Rightarrow> fval" where
  "fmean xs = (if xs = [] then NonFinite else lift2 (/) (fsum xs) (Fin (real (length xs))))"

text \<open>\<open>1 / t\<close> on a tensor entry: \<open>inf\<close> at zero.\<close>

definition frecip :: "real \<Rightarrow> fval" where
  "frecip t = (if t = 0 then NonFinite else Fin (1 / t))"

text \<open>The first error of a list of results, or all their values.\<close>

fun sequence_e :: "(error + 'a) list \<Rightarrow> error + 'a list" where
  "sequence_e [] = Inr []"
| "sequence_e (r # rs) = bind_e r (\<lambda>v. bind_e (sequence_e rs) (\<lambda>vs. Inr (v # vs)))"

text \<open>\<open>xs[i]\<close> with a non-negative index.\<close>

definition nth_e :: "'a list \<Rightarrow> nat \<Rightarrow> error + 'a" where
  "nth_e xs i = (if i < length xs then Inr (xs ! i) else Inl IndexError)"

text \<open>
  An elementwise operation on two rows, with torch's broadcasting of the last axis: equal
  widths, or one of the widths is 1; any other pair of widths is a RuntimeError.
\<close>

definition broadcast2 :: "('a \<Rightarrow> 'b \<Rightarrow> 'c) \<Rightarrow> 'a list \<Rightarrow> 'b list \<Rightarrow> error + 'c list" where
  "broadcast2 f a b =
     (if length a = length b then Inr (map2 f a b)
      else if length a = 1 then Inr (map (f (a ! 0)) b)
      else if length b = 1 then Inr (map (\<lambda>p. f p (b ! 0)) a)
      else Inl RuntimeError)"

text \<open>\<open>torch.randn_like(x)\<close>: the Gaussian draw is a parameter, \<open>eps k i\<close> the noise of
  entry \<open>i\<close> of row \<open>k\<close>.\<close>

definition randn_like :: "(nat \<Rightarrow> nat \<Rightarrow> real) \<Rightarrow> batch \<Rightarrow> batch" where
  "randn_like eps x = map (\<lambda>k. map (eps k) [0..<length (x ! k)]) [0..<length x]"

text \<open>\<open>torch.randint(0, K, size=(B,))\<close>: a RuntimeError unless \<open>0 < K\<close>; the draw is a
  parameter, a stream \<open>rng\<close> of naturals reduced into \<open>{0..<K}\<close>.\<close>

definition randint :: "(nat \<Rightarrow> nat) \<Rightarrow> nat \<Rightarrow> nat \<Rightarrow> error + nat list" where
  "randint rng K B = (if K = 0 then Inl RuntimeError else Inr (map (\<lambda>k. rng k mod K) [0..<B]))"

subsection \<open>Implicit score matching\<close>

text \<open>
  Modelled from the spec: \<open>jacobians.full_jacobian\<close> (jacobians.py is not among the
  sources). Spec 4.1, exact strategy: the full Jacobian of the batched map, of shape
  \<open>B \<times> D \<times> B \<times> D\<close>; the diagonal block \<open>j[k, :, k, :]\<close> is the Jacobian at row \<open>k\<close> and
  the off-diagonal batch blocks are zero.
\<close>

definition full_jacobian :: "score_model \<Rightarrow> batch \<Rightarrow> real list list list list" where
  "full_jacobian m x =
     map (\<lambda>k. map (\<lambda>jrow. map (\<lambda>k'. if k' = k then jrow else replicate (length (x ! k')) 0)
                                [0..<length x])
                   (jac m (x ! k)))
         [0..<length x]"

text \<open>
  Modelled from the spec: \<open>jacobians.batched_jacobian\<close> (jacobians.py is not among the
  sources). Spec 4.1, fast strategy: for each of the \<open>n\<close> output dimensions the
  derivatives of that output of every row, a \<open>B \<times> n \<times> D\<close> tensor with
  \<open>j[k, i, :]\<close> row \<open>i\<close> of the Jacobian at row \<open>k\<close>.
\<close>

definition batched_jacobian :: "score_model \<Rightarrow> batch \<Rightarrow> nat \<Rightarrow> real list list list" where
  "batched_jacobian m x n = map (\<lambda>xk. take n (jac m xk)) x"

text \<open>\<open>j[range(B), i, range(B), i]\<close>: the entries \<open>j[k, i, k, i]\<close> for \<open>k < B\<close>.\<close>

definition diag4 :: "real list list list list \<Rightarrow> nat \<Rightarrow> nat \<Rightarrow> error + real list" where
  "diag4 j B i =
     sequence_e (map (\<lambda>k. bind_e (nth_e j k) (\<lambda>a. bind_e (nth_e a i) (\<lambda>b.
                           bind_e (nth_e b k) (\<lambda>c. nth_e c i)))) [0..<B])"

text \<open>\<open>j[range(B), i, i]\<close>: the entries \<open>j[k, i, i]\<close> for \<open>k < B\<close>.\<close>

definition diag3 :: "real list list list \<Rightarrow> nat \<Rightarrow> nat \<Rightarrow> error + real list" where
  "diag3 j B i =
     sequence_e (map (\<lambda>k. bind_e (nth_e j k) (\<lambda>a. bind_e (nth_e a i) (\<lambda>b. nth_e b i))) [0..<B])"

text \<open>\<open>_ism\<close>: \<open>(tr_jac + 0.5 * (scores ** 2).sum(-1)).mean()\<close>.\<close>

definition ism :: "real list \<Rightarrow> batch \<Rightarrow> fval" where
  "ism tr_jac scores =
     fmean (map Fin (map2 (\<lambda>t s. t + 0.5 * sum_list (map (\<lambda>v. v\<^sup>2) s)) tr_jac scores))"

text \<open>The first three lines of \<open>ism_loss\<close>: the vector \<open>tr\<close>.\<close>

definition ism_trace :: "score_model \<Rightarrow> batch \<Rightarrow> error + real list" where
  "ism_trace m x =
     (let B = length x; j = full_jacobian m x in
      bind_e (diag4 j B 0) (\<lambda>d0.
      bind_e (diag4 j B 1) (\<lambda>d1. Inr (map2 (+) d0 d1))))"

definition ism_loss :: "score_model \<Rightarrow> batch \<Rightarrow> error + fval" where
  "ism_loss m x = bind_e (ism_trace m x) (\<lambda>tr. Inr (ism tr (map (score m) x)))"

text \<open>The first three lines of \<open>ism_loss_fast\<close>: the vector \<open>tr\<close>.\<close>

definition ism_trace_fast :: "score_model \<Rightarrow> batch \<Rightarrow> error + real list" where
  "ism_trace_fast m x =
     (let B = length x; j = batched_jacobian m x 2 in
      bind_e (diag3 j B 0) (\<lambda>d0.
      bind_e (diag3 j B 1) (\<lambda>d1. Inr (map2 (+) d0 d1))))"

definition ism_loss_fast :: "score_model \<Rightarrow> batch \<Rightarrow> error + fval" where
  "ism_loss_fast m x = bind_e (ism_trace_fast m x) (\<lambda>tr. Inr (ism tr (map (score m) x)))"

subsection \<open>Denoising score matching\<close>

text \<open>
  \<open>sigma\<close> is a Python float: \<open>1 / sigma ** 2\<close> raises ZeroDivisionError at zero.
  The lines of \<open>dsm_loss\<close> in order; \<open>scores - targets\<close> is the one operation whose
  operands can differ in shape.
\<close>

definition dsm_loss ::
  "(real list \<Rightarrow> real list) \<Rightarrow> batch \<Rightarrow> real \<Rightarrow> (nat \<Rightarrow> nat \<Rightarrow> real) \<Rightarrow> error + fval" where
  "dsm_loss score_model x sigma eps =
     (let xn = map2 (map2 (+)) x (map (map (\<lambda>e. e * sigma)) (randn_like eps x)) in
      if sigma\<^sup>2 = 0 then Inl ZeroDivisionError
      else
        let targets = map (map (\<lambda>d. (1 / sigma\<^sup>2) * d)) (map2 (map2 (-)) x xn);
            scores = map score_model xn
        in bind_e (sequence_e (map2 (broadcast2 (-)) scores targets)) (\<lambda>d.
           Inr (lift2 (*) (Fin 0.5) (fmean (map (\<lambda>r. Fin (sum_list (map (\<lambda>v. v\<^sup>2) r))) d)))))"

subsection \<open>Noise-conditional score matching\<close>

text \<open>
  \<open>sigmae\<close> is a 1-D tensor: \<open>1 / (chosen_sigma ** 2)\<close> is \<open>inf\<close> at a zero level, and
  every value computed from it is non-finite. \<open>chosen_sigma\<close> is a \<open>B \<times> 1\<close> column,
  broadcast along each row.
\<close>

definition ncsm_loss ::
  "(real list \<Rightarrow> nat \<Rightarrow> real list) \<Rightarrow> batch \<Rightarrow> real list \<Rightarrow> (nat \<Rightarrow> nat) \<Rightarrow> (nat \<Rightarrow> nat \<Rightarrow> real) \<Rightarrow>
     error + fval" where
  "ncsm_loss score_model x sigmae rng eps =
     bind_e (randint rng (length sigmae) (length x)) (\<lambda>ids.
       let chosen_sigma = map (\<lambda>i. sigmae ! i) ids;
           xn = map2 (map2 (+)) x
                  (map2 (\<lambda>r s. map (\<lambda>e. e * s) r) (randn_like eps x) chosen_sigma);
           targets = map2 (\<lambda>s r. map (\<lambda>d. lift2 (*) (frecip (s\<^sup>2)) (Fin d)) r)
                       chosen_sigma (map2 (map2 (-)) x xn);
           scores = map2 score_model xn ids
       in bind_e (sequence_e (map2 (broadcast2 (\<lambda>s t. lift2 (-) (Fin s) t)) scores targets)) (\<lambda>d.
          let losses = map (\<lambda>r. lift2 (*) (Fin 0.5) (fsum (map (\<lambda>v. lift2 (*) v v) r))) d;
              lambd = map (\<lambda>s. s\<^sup>2) chosen_sigma
          in Inr (fmean (map2 (\<lambda>l s. lift2 (*) l (Fin s)) losses lambd))))"

section \<open>Specification-side definitions and example inputs\<close>

subsection \<open>The integrator\<close>

text \<open>A tensor of shape \<open>n_y \<times> n_x\<close>, and a field of shape \<open>n_y \<times> n_x \<times> 2\<close>.\<close>

definition is_grid :: "nat \<Rightarrow> nat \<Rightarrow> grid \<Rightarrow> bool" where
  "is_grid n_y n_x u = (length u = n_y \<and> list_all (\<lambda>r. length r = n_x) u)"

definition is_field :: "nat \<Rightarrow> nat \<Rightarrow> field \<Rightarrow> bool" where
  "is_field n_y n_x V =
     (length V = n_y \<and> list_all (\<lambda>row. length row = n_x \<and> list_all (\<lambda>p. length p = 2) row) V)"

text \<open>
  The potential as the specification states it: \<open>U[0,0] = c\<close>; along the bottom row
  \<open>U[0,ix] = U[0,ix-1] + 0.5 (V\<^sub>x[0,ix] + V\<^sub>x[0,ix-1]) hx\<close>; up every column
  \<open>U[iy,ix] = U[iy-1,ix] + 0.5 (V\<^sub>y[iy,ix] + V\<^sub>y[iy-1,ix]) hy\<close>.
\<close>

fun potential :: "field \<Rightarrow> real \<Rightarrow> real \<Rightarrow> real \<Rightarrow> nat \<Rightarrow> nat \<Rightarrow> real" where
  "potential V hx hy c 0 0 = c"
| "potential V hx hy c 0 (Suc ix) =
     potential V hx hy c 0 ix + 0.5 * (V ! 0 ! Suc ix ! 0 + V ! 0 ! ix ! 0) * hx"
| "potential V hx hy c (Suc iy) ix =
     potential V hx hy c iy ix + 0.5 * (V ! Suc iy ! ix ! 1 + V ! iy ! ix ! 1) * hy"

text \<open>Two \<open>2 \<times> 2\<close> fields that differ only in the x-components of the upper row.\<close>

definition V_example :: field where
  "V_example = [[[1, 2], [3, 4]], [[5, 6], [7, 8]]]"

definition V_example_alt :: field where
  "V_example_alt = [[[1, 2], [3, 4]], [[50, 6], [70, 8]]]"

subsection \<open>The losses\<close>

text \<open>The trace of a matrix: the sum of all its diagonal entries.\<close>

definition trace :: "real list list \<Rightarrow> real" where
  "trace J = (\<Sum>i\<leftarrow>[0..<length J]. J ! i ! i)"

text \<open>A \<open>D \<times> D\<close> matrix.\<close>

definition square :: "nat \<Rightarrow> real list list \<Rightarrow> bool" where
  "square D J = (length J = D \<and> list_all (\<lambda>r. length r = D) J)"

text \<open>The invariant of a score model: the output has the shape of the input.\<close>

definition is_score_model :: "(real list \<Rightarrow> real list) \<Rightarrow> bool" where
  "is_score_model f = (\<forall>r. length (f r) = length r)"

definition is_cond_score_model :: "(real list \<Rightarrow> nat \<Rightarrow> real list) \<Rightarrow> bool" where
  "is_cond_score_model f = (\<forall>r l. length (f r l) = length r)"

text \<open>What the field \<open>jac\<close> stands for: the partial derivatives of the forward map.\<close>

definition is_jacobian :: "score_model \<Rightarrow> bool" where
  "is_jacobian m =
     (\<forall>x i j. i < length x \<longrightarrow> j < length x \<longrightarrow>
        ((\<lambda>t. score m (x[j := t]) ! i) has_real_derivative jac m x ! i ! j) (at (x ! j)))"

text \<open>\<open>||v||\<^sup>2\<close> and \<open>||a - b||\<^sup>2\<close>, summed over the dimensions.\<close>

definition sq_norm :: "real list \<Rightarrow> real" where
  "sq_norm v = (\<Sum>i\<leftarrow>[0..<length v]. (v ! i)\<^sup>2)"

definition sq_dist :: "nat \<Rightarrow> real list \<Rightarrow> real list \<Rightarrow> real" where
  "sq_dist D a b = (\<Sum>i\<leftarrow>[0..<D]. (a ! i - b ! i)\<^sup>2)"

text \<open>ISM as the specification states it: the batch mean of
  \<open>tr(J\<^sub>f(x\<^sub>k)) + 0.5 ||f(x\<^sub>k)||\<^sup>2\<close>.\<close>

definition ism_spec :: "score_model \<Rightarrow> batch \<Rightarrow> real" where
  "ism_spec m x =
     (\<Sum>k\<leftarrow>[0..<length x]. trace (jac m (x ! k)) + 0.5 * sq_norm (score m (x ! k)))
     / real (length x)"

text \<open>The noisy point \<open>x\<^sub>k + \<sigma> \<epsilon>\<^sub>k\<close> and the denoising target
  \<open>- ((x\<^sub>k + \<sigma> \<epsilon>\<^sub>k) - x\<^sub>k) / \<sigma>\<^sup>2\<close>.\<close>

definition noisy :: "real list \<Rightarrow> real \<Rightarrow> (nat \<Rightarrow> real) \<Rightarrow> real list" where
  "noisy xk \<sigma> e = map (\<lambda>i. xk ! i + \<sigma> * e i) [0..<length xk]"

definition dsm_target :: "real list \<Rightarrow> real list \<Rightarrow> real \<Rightarrow> real list" where
  "dsm_target xk xnk \<sigma> = map (\<lambda>i. - (xnk ! i - xk ! i) / \<sigma>\<^sup>2) [0..<length xk]"

text \<open>DSM as the specification states it: 0.5 times the batch mean of
  \<open>||f(x\<^sub>k + \<sigma> \<epsilon>\<^sub>k) - t\<^sub>k||\<^sup>2\<close>.\<close>

definition dsm_spec ::
  "(real list \<Rightarrow> real list) \<Rightarrow> batch \<Rightarrow> real \<Rightarrow> (nat \<Rightarrow> nat \<Rightarrow> real) \<Rightarrow> real" where
  "dsm_spec f x \<sigma> eps =
     0.5 * ((\<Sum>k\<leftarrow>[0..<length x].
               sq_dist (length (x ! k)) (f (noisy (x ! k) \<sigma> (eps k)))
                 (dsm_target (x ! k) (noisy (x ! k) \<sigma> (eps k)) \<sigma>))
            / real (length x))"

text \<open>
  NCSM as the specification states it. Sample \<open>k\<close> has its own level index; its
  denoising residual at that level, \<open>0.5 ||f(x\<^sub>k + \<sigma> \<epsilon>\<^sub>k, level) - t\<^sub>k||\<^sup>2\<close>, is weighted
  by \<open>\<sigma>\<^sup>2\<close> of that level, and the weighted residuals are averaged.
\<close>

definition level :: "(nat \<Rightarrow> nat) \<Rightarrow> real list \<Rightarrow> nat \<Rightarrow> nat" where
  "level rng sigmae k = rng k mod length sigmae"

definition ncsm_sample ::
  "(real list \<Rightarrow> nat \<Rightarrow> real list) \<Rightarrow> real list \<Rightarrow> nat \<Rightarrow> real \<Rightarrow> (nat \<Rightarrow> real) \<Rightarrow> real" where
  "ncsm_sample f xk l \<sigma> e =
     \<sigma>\<^sup>2 * (0.5 * sq_dist (length xk) (f (noisy xk \<sigma> e) l) (dsm_target xk (noisy xk \<sigma> e) \<sigma>))"

definition ncsm_spec ::
  "(real list \<Rightarrow> nat \<Rightarrow> real list) \<Rightarrow> batch \<Rightarrow> real list \<Rightarrow> (nat \<Rightarrow> nat) \<Rightarrow> (nat \<Rightarrow> nat \<Rightarrow> real) \<Rightarrow> real" where
  "ncsm_spec f x sigmae rng eps =
     (\<Sum>k\<leftarrow>[0..<length x].
        ncsm_sample f (x ! k) (level rng sigmae k) (sigmae ! level rng sigmae k) (eps k))
     / real (length x)"

text \<open>
  Example inputs: the score of the standard normal distribution, \<open>f(x) = - x\<close>, with its
  Jacobian \<open>- I\<close>; a conditional score \<open>f(x, l) = - x / (l + 1)\<close>; a noise draw and a draw of
  level indices.
\<close>

definition normal_model :: score_model where
  "normal_model =
     \<lparr>score = map uminus,
      jac = (\<lambda>r. map (\<lambda>i. map (\<lambda>j. if i = j then - 1 else 0) [0..<length r]) [0..<length r])\<rparr>"

definition cond_normal_score :: "real list \<Rightarrow> nat \<Rightarrow> real list" where
  "cond_normal_score r l = map (\<lambda>v. - v / real (Suc l)) r"

definition example_noise :: "nat \<Rightarrow> nat \<Rightarrow> real" where
  "example_noise k i = [[1, - 1], [0, 2]] ! k ! i"

definition example_rng :: "nat \<Rightarrow> nat" where
  "example_rng k = 7 * k + 4"

section \<open>The integrator: loop invariants and results\<close>

lemma bind_e_Inr [simp]: "bind_e (Inr v) k = k v"
  by (simp add: bind_e_def)

lemma bind_e_Inl [simp]: "bind_e (Inl e) k = Inl e"
  by (simp add: bind_e_def)

lemma is_grid_nth: "is_grid n_y n_x u \<Longrightarrow> i < n_y \<Longrightarrow> length (u ! i) = n_x"
  by (simp add: is_grid_def list_all_length)

lemma get2_ok: "is_grid n_y n_x u \<Longrightarrow> i < n_y \<Longrightarrow> j < n_x \<Longrightarrow> get2 u i j = Inr (u ! i ! j)"
  by (simp add: get2_def is_grid_def list_all_length)

lemma set2_ok:
  "is_grid n_y n_x u \<Longrightarrow> i < n_y \<Longrightarrow> j < n_x \<Longrightarrow> set2 u i j v = Inr (u[i := (u ! i)[j := v]])"
  by (simp add: set2_def is_grid_def list_all_length)

lemma is_grid_update:
  "is_grid n_y n_x u \<Longrightarrow> is_grid n_y n_x (u[i := (u ! i)[j := v]])"
  by (cases "i < length u") (auto simp: is_grid_def list_all_length nth_list_update)

lemma nth_update2:
  "is_grid n_y n_x u \<Longrightarrow> a < n_y \<Longrightarrow> b < n_x \<Longrightarrow>
   u[i := (u ! i)[j := v]] ! a ! b = (if a = i \<and> b = j then v else u ! a ! b)"
  by (cases "i < length u") (auto simp: is_grid_def list_all_length nth_list_update)

lemma walk_up_ok:
  assumes "is_grid n_y n_x u" "is_grid (n_y - 1) n_x ty" "ix < n_x" "1 \<le> r" "r \<le> n_y"
  shows "\<exists>u'. walk_up ty ix [r..<n_y] u = Inr u' \<and> is_grid n_y n_x u' \<and>
           (\<forall>iy jx. iy < n_y \<longrightarrow> jx < n_x \<longrightarrow> \<not> (jx = ix \<and> r \<le> iy) \<longrightarrow> u' ! iy ! jx = u ! iy ! jx) \<and>
           (\<forall>iy. r \<le> iy \<longrightarrow> iy < n_y \<longrightarrow> u' ! iy ! ix = ty ! (iy - 1) ! ix + u' ! (iy - 1) ! ix)"
  using assms
proof (induction "n_y - r" arbitrary: r u)
  case 0
  then show ?case by simp
next
  case (Suc k)
  then have r: "r < n_y" by simp
  let ?v = "ty ! (r - 1) ! ix + u ! (r - 1) ! ix"
  let ?u1 = "u[r := (u ! r)[ix := ?v]]"
  have g1: "is_grid n_y n_x ?u1" using Suc.prems(1) by (rule is_grid_update)
  have step: "walk_up ty ix [r..<n_y] u = walk_up ty ix [Suc r..<n_y] ?u1"
    using r Suc.prems
    by (simp add: upt_conv_Cons get2_ok [of "n_y - 1" n_x ty] get2_ok [of n_y n_x u]
        set2_ok [of n_y n_x u])
  have k: "k = n_y - Suc r" using Suc.hyps(2) by simp
  from Suc.hyps(1) [OF k g1 Suc.prems(2) Suc.prems(3)] r
  obtain u' where u': "walk_up ty ix [Suc r..<n_y] ?u1 = Inr u'" "is_grid n_y n_x u'"
    and same: "\<And>iy jx. iy < n_y \<Longrightarrow> jx < n_x \<Longrightarrow> \<not> (jx = ix \<and> Suc r \<le> iy) \<Longrightarrow> u' ! iy ! jx = ?u1 ! iy ! jx"
    and rec: "\<And>iy. Suc r \<le> iy \<Longrightarrow> iy < n_y \<Longrightarrow> u' ! iy ! ix = ty ! (iy - 1) ! ix + u' ! (iy - 1) ! ix"
    by (metis Suc_leI le_SucI Suc.prems(4))
  have a: "\<forall>iy jx. iy < n_y \<longrightarrow> jx < n_x \<longrightarrow> \<not> (jx = ix \<and> r \<le> iy) \<longrightarrow> u' ! iy ! jx = u ! iy ! jx"
  proof (intro allI impI)
    fix iy jx assume h: "iy < n_y" "jx < n_x" "\<not> (jx = ix \<and> r \<le> iy)"
    then have "u' ! iy ! jx = ?u1 ! iy ! jx" by (intro same) auto
    also have "\<dots> = u ! iy ! jx" using h by (auto simp: nth_update2 [OF Suc.prems(1)])
    finally show "u' ! iy ! jx = u ! iy ! jx" .
  qed
  have b: "\<forall>iy. r \<le> iy \<longrightarrow> iy < n_y \<longrightarrow> u' ! iy ! ix = ty ! (iy - 1) ! ix + u' ! (iy - 1) ! ix"
  proof (intro allI impI)
    fix iy assume h: "r \<le> iy" "iy < n_y"
    show "u' ! iy ! ix = ty ! (iy - 1) ! ix + u' ! (iy - 1) ! ix"
    proof (cases "iy = r")
      case True
      have "u' ! r ! ix = ?u1 ! r ! ix" using r Suc.prems(3) by (intro same) auto
      also have "\<dots> = ?v" using r Suc.prems(3) by (simp add: nth_update2 [OF Suc.prems(1)])
      finally have 1: "u' ! r ! ix = ?v" .
      have "u' ! (r - 1) ! ix = ?u1 ! (r - 1) ! ix" using r Suc.prems(3,4) by (intro same) auto
      also have "\<dots> = u ! (r - 1) ! ix" using r Suc.prems(3,4) by (simp add: nth_update2 [OF Suc.prems(1)])
      finally show ?thesis using 1 True by simp
    next
      case False
      then show ?thesis using h rec by simp
    qed
  qed
  show ?case using step u' a b by auto
qed


lemma walk_right_ok:
  assumes "is_grid n_y n_x u" "0 < length tx" "length (tx ! 0) = n_x - 1"
    "is_grid (n_y - 1) n_x ty" "m \<le> n_x" "1 \<le> n_y"
  shows "\<exists>u'. walk_right tx ty n_y [m..<n_x] u = Inr u' \<and> is_grid n_y n_x u' \<and>
           (\<forall>iy jx. iy < n_y \<longrightarrow> jx < n_x \<longrightarrow> jx < m \<or> (iy = 0 \<and> jx = 0) \<longrightarrow> u' ! iy ! jx = u ! iy ! jx) \<and>
           (\<forall>jx. m \<le> jx \<longrightarrow> jx < n_x \<longrightarrow> 0 < jx \<longrightarrow> u' ! 0 ! jx = tx ! 0 ! (jx - 1) + u' ! 0 ! (jx - 1)) \<and>
           (\<forall>iy jx. m \<le> jx \<longrightarrow> jx < n_x \<longrightarrow> 1 \<le> iy \<longrightarrow> iy < n_y \<longrightarrow>
              u' ! iy ! jx = ty ! (iy - 1) ! jx + u' ! (iy - 1) ! jx)"
  using assms
proof (induction "n_x - m" arbitrary: m u)
  case 0
  then show ?case by simp
next
  case (Suc k)
  then have m: "m < n_x" by simp
  note gu = Suc.prems(1)
  define v where "v = tx ! 0 ! (m - 1) + u ! 0 ! (m - 1)"
  define u1 where "u1 = (if 0 < m then u[0 := (u ! 0)[m := v]] else u)"
  have g1: "is_grid n_y n_x u1" using gu by (simp add: u1_def is_grid_update)
  have row: "(if 0 < m
             then bind_e (get2 tx 0 (m - 1)) (\<lambda>a.
                  bind_e (get2 u 0 (m - 1)) (\<lambda>b. set2 u 0 m (a + b)))
             else Inr u) = Inr u1"
  proof (cases "0 < m")
    case True
    have n0: "0 < n_y" using Suc.prems(6) by simp
    have m1: "m - 1 < n_x - 1" "m - 1 < n_x" using True m by auto
    have 1: "get2 tx 0 (m - 1) = Inr (tx ! 0 ! (m - 1))"
      using Suc.prems(2,3) m1 by (simp add: get2_def)
    have 2: "get2 u 0 (m - 1) = Inr (u ! 0 ! (m - 1))"
      using n0 m1(2) by (rule get2_ok [OF gu])
    have 3: "set2 u 0 m v = Inr (u[0 := (u ! 0)[m := v]])"
      using n0 m by (rule set2_ok [OF gu])
    show ?thesis using True by (simp add: 1 2 set2_ok [OF gu n0 m] u1_def v_def del: One_nat_def)
  next
    case False
    then show ?thesis by (simp add: u1_def)
  qed
  from walk_up_ok [OF g1 Suc.prems(4) m, of 1] Suc.prems(6)
  obtain u2 where u2: "walk_up ty m [1..<n_y] u1 = Inr u2" "is_grid n_y n_x u2"
    and same2: "\<And>iy jx. iy < n_y \<Longrightarrow> jx < n_x \<Longrightarrow> \<not> (jx = m \<and> 1 \<le> iy) \<Longrightarrow> u2 ! iy ! jx = u1 ! iy ! jx"
    and rec2: "\<And>iy. 1 \<le> iy \<Longrightarrow> iy < n_y \<Longrightarrow> u2 ! iy ! m = ty ! (iy - 1) ! m + u2 ! (iy - 1) ! m"
    by blast
  have step: "walk_right tx ty n_y [m..<n_x] u = walk_right tx ty n_y [Suc m..<n_x] u2"
    using m by (simp add: upt_conv_Cons row u2(1) del: One_nat_def)
  have k: "k = n_x - Suc m" using Suc.hyps(2) by simp
  have sm: "Suc m \<le> n_x" using m by simp
  from Suc.hyps(1) [OF k u2(2) Suc.prems(2,3,4) sm Suc.prems(6)]
  obtain u' where u': "walk_right tx ty n_y [Suc m..<n_x] u2 = Inr u'" "is_grid n_y n_x u'"
    and same: "\<And>iy jx. iy < n_y \<Longrightarrow> jx < n_x \<Longrightarrow> jx < Suc m \<or> (iy = 0 \<and> jx = 0) \<Longrightarrow> u' ! iy ! jx = u2 ! iy ! jx"
    and rowrec: "\<And>jx. Suc m \<le> jx \<Longrightarrow> jx < n_x \<Longrightarrow> 0 < jx \<Longrightarrow> u' ! 0 ! jx = tx ! 0 ! (jx - 1) + u' ! 0 ! (jx - 1)"
    and colrec: "\<And>iy jx. Suc m \<le> jx \<Longrightarrow> jx < n_x \<Longrightarrow> 1 \<le> iy \<Longrightarrow> iy < n_y \<Longrightarrow>
              u' ! iy ! jx = ty ! (iy - 1) ! jx + u' ! (iy - 1) ! jx"
    by blast
  have u1_nth: "\<And>iy jx. iy < n_y \<Longrightarrow> jx < n_x \<Longrightarrow>
      u1 ! iy ! jx = (if 0 < m \<and> iy = 0 \<and> jx = m then v else u ! iy ! jx)"
    by (simp add: u1_def nth_update2 [OF gu])
  have a: "\<forall>iy jx. iy < n_y \<longrightarrow> jx < n_x \<longrightarrow> jx < m \<or> (iy = 0 \<and> jx = 0) \<longrightarrow> u' ! iy ! jx = u ! iy ! jx"
  proof (intro allI impI)
    fix iy jx assume h: "iy < n_y" "jx < n_x" "jx < m \<or> (iy = 0 \<and> jx = 0)"
    then have "u' ! iy ! jx = u2 ! iy ! jx" by (intro same) auto
    also have "\<dots> = u1 ! iy ! jx" using h by (intro same2) auto
    also have "\<dots> = u ! iy ! jx" using h by (auto simp: u1_nth)
    finally show "u' ! iy ! jx = u ! iy ! jx" .
  qed
  have b: "\<forall>jx. m \<le> jx \<longrightarrow> jx < n_x \<longrightarrow> 0 < jx \<longrightarrow> u' ! 0 ! jx = tx ! 0 ! (jx - 1) + u' ! 0 ! (jx - 1)"
  proof (intro allI impI)
    fix jx assume h: "m \<le> jx" "jx < n_x" "0 < jx"
    show "u' ! 0 ! jx = tx ! 0 ! (jx - 1) + u' ! 0 ! (jx - 1)"
    proof (cases "jx = m")
      case True
      have n0: "0 < n_y" using Suc.prems(6) by simp
      have "u' ! 0 ! m = u2 ! 0 ! m" using m n0 by (intro same) auto
      also have "\<dots> = u1 ! 0 ! m" using m n0 by (intro same2) auto
      also have "\<dots> = v" using m n0 h True by (simp add: u1_nth)
      finally have 1: "u' ! 0 ! m = v" .
      have "u' ! 0 ! (m - 1) = u2 ! 0 ! (m - 1)" using m n0 h True by (intro same) auto
      also have "\<dots> = u1 ! 0 ! (m - 1)" using m n0 h True by (intro same2) auto
      also have "\<dots> = u ! 0 ! (m - 1)" using m n0 h True by (auto simp: u1_nth)
      finally show ?thesis using 1 True by (simp add: v_def)
    next
      case False
      then show ?thesis using h rowrec by simp
    qed
  qed
  have c: "\<forall>iy jx. m \<le> jx \<longrightarrow> jx < n_x \<longrightarrow> 1 \<le> iy \<longrightarrow> iy < n_y \<longrightarrow>
              u' ! iy ! jx = ty ! (iy - 1) ! jx + u' ! (iy - 1) ! jx"
  proof (intro allI impI)
    fix iy jx assume h: "m \<le> jx" "jx < n_x" "1 \<le> iy" "iy < n_y"
    show "u' ! iy ! jx = ty ! (iy - 1) ! jx + u' ! (iy - 1) ! jx"
    proof (cases "jx = m")
      case True
      have 1: "u' ! iy ! m = u2 ! iy ! m" using m h by (intro same) auto
      have 2: "u' ! (iy - 1) ! m = u2 ! (iy - 1) ! m" using m h by (intro same) auto
      show ?thesis using 1 2 rec2 [OF h(3,4)] True by simp
    next
      case False
      then show ?thesis using h colrec by simp
    qed
  qed
  show ?case using step u' a b c by auto
qed


lemma select_last_ok:
  assumes "is_field n_y n_x V" "c < 2"
  shows "select_last V c = Inr (map (map (\<lambda>p. p ! c)) V)"
  using assms by (auto simp: select_last_def is_field_def list_all_length)

lemma is_grid_select:
  "is_field n_y n_x V \<Longrightarrow> is_grid n_y n_x (map (map (\<lambda>p. p ! c)) V)"
  by (simp add: is_field_def is_grid_def list_all_length)

lemma trapezoid_nth:
  "j < length a \<Longrightarrow> j < length b \<Longrightarrow> trapezoid h a b ! j = 0.5 * (a ! j + b ! j) * h"
  by (simp add: trapezoid_def)

lemma length_trapezoid: "length (trapezoid h a b) = min (length a) (length b)"
  by (simp add: trapezoid_def)

lemma tx_of_row0:
  assumes "is_grid n_y n_x sx" "0 < n_y"
  shows "0 < length (tx_of sx hx)" "length (tx_of sx hx ! 0) = n_x - 1"
    "j < n_x - 1 \<Longrightarrow> tx_of sx hx ! 0 ! j = 0.5 * (sx ! 0 ! Suc j + sx ! 0 ! j) * hx"
proof -
  have l: "length sx = n_y" "length (sx ! 0) = n_x"
    using assms by (simp_all add: is_grid_def list_all_length)
  show "0 < length (tx_of sx hx)" using l assms(2) by (simp add: tx_of_def)
  show "length (tx_of sx hx ! 0) = n_x - 1"
    using l assms(2) by (simp add: tx_of_def length_trapezoid)
  show "tx_of sx hx ! 0 ! j = 0.5 * (sx ! 0 ! Suc j + sx ! 0 ! j) * hx" if "j < n_x - 1"
    using l assms(2) that by (simp add: tx_of_def trapezoid_nth nth_tl nth_butlast)
qed

lemma ty_of_grid:
  assumes "is_grid n_y n_x sy"
  shows "is_grid (n_y - 1) n_x (ty_of sy hy)"
    "i < n_y - 1 \<Longrightarrow> j < n_x \<Longrightarrow> ty_of sy hy ! i ! j = 0.5 * (sy ! Suc i ! j + sy ! i ! j) * hy"
proof -
  have l: "length sy = n_y" "\<And>i. i < n_y \<Longrightarrow> length (sy ! i) = n_x"
    using assms by (simp_all add: is_grid_def list_all_length)
  show "is_grid (n_y - 1) n_x (ty_of sy hy)"
    using l by (simp add: is_grid_def ty_of_def list_all_length length_trapezoid nth_tl nth_butlast)
  show "ty_of sy hy ! i ! j = 0.5 * (sy ! Suc i ! j + sy ! i ! j) * hy" if "i < n_y - 1" "j < n_x"
    using l that by (simp add: ty_of_def trapezoid_nth nth_tl nth_butlast)
qed

lemma new_zeros_ok: "new_zeros (int n_y) (int n_x) = Inr (replicate n_y (replicate n_x 0))"
  by (simp add: new_zeros_def)

lemma is_grid_zeros: "is_grid n_y n_x (replicate n_y (replicate n_x 0))"
  by (simp add: is_grid_def list_all_length)

lemma spacing_ok: "2 \<le> n \<Longrightarrow> spacing (a, b) (int n) = Inr ((b - a) / (real n - 1))"
  by (simp add: spacing_def)

lemma upt_2: "[0..<2] = [0, 1]"
  by (simp add: numeral_2_eq_2)

lemma upt_3: "[0..<3] = [0, 1, 2]"
  by (simp add: numeral_3_eq_3)

lemma walk_right_cong:
  assumes "length tx = length tx'" "0 < length tx \<Longrightarrow> tx ! 0 = tx' ! 0"
  shows "walk_right tx ty n ixs u = walk_right tx' ty n ixs u"
proof (induction ixs arbitrary: u)
  case Nil
  show ?case by simp
next
  case (Cons ix ixs)
  have "get2 tx 0 j = get2 tx' 0 j" for j
    using assms by (auto simp: get2_def)
  moreover have "walk_right tx ty n ixs = walk_right tx' ty n ixs"
    using Cons by (intro ext)
  ultimately show ?case by simp
qed


lemma V_example_integral:
  "integrate_scores_rect2d (Tensor V_example) (0, 2) (0, 1) 2 2 1 = Inr [[1, 5], [5, 11]]"
  by (simp add: integrate_scores_rect2d_def V_example_def new_zeros_def spacing_def
      select_last_def set2_def get2_def tx_of_def ty_of_def trapezoid_def upt_2
      numeral_2_eq_2)

text \<open>
  C2: for every vector field \<open>V\<close> given as an \<open>n_y \<times> n_x \<times> 2\<close> grid with \<open>n_x \<ge> 2\<close> and
  \<open>n_y \<ge> 2\<close>, extents \<open>[x0,x1] \<times> [y0,y1]\<close> and constant \<open>c\<close>, the integrator returns the
  \<open>n_y \<times> n_x\<close> grid whose entry \<open>[iy, ix]\<close> is \<open>potential V hx hy c iy ix\<close>, with
  \<open>hx = (x1 - x0) / (n_x - 1)\<close> and \<open>hy = (y1 - y0) / (n_y - 1)\<close>: the grid defined by the
  seed and the two trapezoidal recurrences.
\<close>

theorem integrate_scores_rect2d_potential:
  assumes V: "is_field n_y n_x V" and nx: "2 \<le> n_x" and ny: "2 \<le> n_y"
  shows "integrate_scores_rect2d (Tensor V) (x0, x1) (y0, y1) (int n_x) (int n_y) c =
         Inr (map (\<lambda>iy. map (\<lambda>ix. potential V ((x1 - x0) / (real n_x - 1))
                                            ((y1 - y0) / (real n_y - 1)) c iy ix)
                              [0..<n_x]) [0..<n_y])"
proof -
  define hx where "hx = (x1 - x0) / (real n_x - 1)"
  define hy where "hy = (y1 - y0) / (real n_y - 1)"
  define sx where "sx = map (map (\<lambda>p. p ! 0)) V"
  define sy where "sy = map (map (\<lambda>p. p ! 1)) V"
  define tx where "tx = tx_of sx hx"
  define ty where "ty = ty_of sy hy"
  define z where "z = replicate n_y (replicate n_x (0::real))"
  define u0 where "u0 = z[0 := (z ! 0)[0 := c]]"
  have n0: "0 < n_y" "0 < n_x" using nx ny by simp_all
  have gz: "is_grid n_y n_x z" unfolding z_def by (rule is_grid_zeros)
  have gu0: "is_grid n_y n_x u0" unfolding u0_def using gz by (rule is_grid_update)
  have u00: "u0 ! 0 ! 0 = c" using n0 by (simp add: u0_def nth_update2 [OF gz])
  have gsx: "is_grid n_y n_x sx" unfolding sx_def using V by (rule is_grid_select)
  have gsy: "is_grid n_y n_x sy" unfolding sy_def using V by (rule is_grid_select)
  have run: "integrate_scores_rect2d (Tensor V) (x0, x1) (y0, y1) (int n_x) (int n_y) c =
             walk_right tx ty n_y [0..<n_x] u0"
    using n0
    by (simp add: integrate_scores_rect2d_def new_zeros_ok spacing_ok [OF nx] spacing_ok [OF ny]
        select_last_ok [OF V] set2_ok [OF is_grid_zeros] tx_def ty_def sx_def sy_def hx_def hy_def
        u0_def z_def)
  from walk_right_ok [OF gu0 tx_of_row0(1,2) [OF gsx n0(1)] ty_of_grid(1) [OF gsy], of 0 hx hy]
    n0
  obtain U where U: "walk_right tx ty n_y [0..<n_x] u0 = Inr U" "is_grid n_y n_x U"
    and U00: "U ! 0 ! 0 = u0 ! 0 ! 0"
    and rowrec: "\<And>jx. jx < n_x \<Longrightarrow> 0 < jx \<Longrightarrow> U ! 0 ! jx = tx ! 0 ! (jx - 1) + U ! 0 ! (jx - 1)"
    and colrec: "\<And>iy jx. jx < n_x \<Longrightarrow> 1 \<le> iy \<Longrightarrow> iy < n_y \<Longrightarrow>
                   U ! iy ! jx = ty ! (iy - 1) ! jx + U ! (iy - 1) ! jx"
    unfolding tx_def ty_def by auto
  have row0: "ix < n_x \<Longrightarrow> U ! 0 ! ix = potential V hx hy c 0 ix" for ix
  proof (induction ix)
    case 0
    then show ?case using U00 u00 by simp
  next
    case (Suc ix)
    have "tx ! 0 ! ix = 0.5 * (sx ! 0 ! Suc ix + sx ! 0 ! ix) * hx"
      unfolding tx_def using Suc.prems by (intro tx_of_row0(3) [OF gsx n0(1)]) simp
    moreover have "sx ! 0 ! Suc ix = V ! 0 ! Suc ix ! 0" "sx ! 0 ! ix = V ! 0 ! ix ! 0"
      using Suc.prems n0 V by (simp_all add: sx_def is_field_def list_all_length)
    ultimately show ?case using rowrec [of "Suc ix"] Suc by simp
  qed
  have cell: "iy < n_y \<Longrightarrow> ix < n_x \<Longrightarrow> U ! iy ! ix = potential V hx hy c iy ix" for iy ix
  proof (induction iy)
    case 0
    then show ?case by (simp add: row0)
  next
    case (Suc iy)
    have "ty ! iy ! ix = 0.5 * (sy ! Suc iy ! ix + sy ! iy ! ix) * hy"
      unfolding ty_def using Suc.prems by (intro ty_of_grid(2) [OF gsy]) simp_all
    moreover have "sy ! Suc iy ! ix = V ! Suc iy ! ix ! 1" "sy ! iy ! ix = V ! iy ! ix ! 1"
      using Suc.prems V by (simp_all add: sy_def is_field_def list_all_length)
    ultimately show ?case using colrec [of ix "Suc iy"] Suc by simp
  qed
  have "U = map (\<lambda>iy. map (\<lambda>ix. potential V hx hy c iy ix) [0..<n_x]) [0..<n_y]"
  proof (rule nth_equalityI)
    show "length U = length (map (\<lambda>iy. map (\<lambda>ix. potential V hx hy c iy ix) [0..<n_x]) [0..<n_y])"
      using U(2) by (simp add: is_grid_def)
  next
    fix iy assume "iy < length U"
    then have iy: "iy < n_y" using U(2) by (simp add: is_grid_def)
    have "U ! iy = map (\<lambda>ix. potential V hx hy c iy ix) [0..<n_x]"
      using iy is_grid_nth [OF U(2) iy] by (intro nth_equalityI) (simp_all add: cell)
    then show "U ! iy = map (\<lambda>iy. map (\<lambda>ix. potential V hx hy c iy ix) [0..<n_x]) [0..<n_y] ! iy"
      using iy by simp
  qed
  then show ?thesis using run U(1) by (simp add: hx_def hy_def)
qed


theorem integrate_scores_rect2d_potential_witness:
  "is_field 2 2 V_example \<and>
   integrate_scores_rect2d (Tensor V_example) (0, 2) (0, 1) 2 2 1 = Inr [[1, 5], [5, 11]]"
  using integrate_scores_rect2d_potential [of 2 2 V_example 0 2 0 1 1]
  by (simp add: is_field_def V_example_def upt_2)




text \<open>
  C10: two fields of the same shape \<open>n_y \<times> n_x \<times> 2\<close> that agree on the y-component
  everywhere and on the x-component in row 0 give the same result for the same extents
  and constant: the x-components above the bottom row are never read.
\<close>

theorem integrate_scores_rect2d_upper_x_irrelevant:
  assumes S: "is_field n_y n_x S" and S': "is_field n_y n_x S'"
    and y_agree: "\<forall>iy ix. iy < n_y \<longrightarrow> ix < n_x \<longrightarrow> S ! iy ! ix ! 1 = S' ! iy ! ix ! 1"
    and x_agree: "\<forall>ix. ix < n_x \<longrightarrow> S ! 0 ! ix ! 0 = S' ! 0 ! ix ! 0"
  shows "integrate_scores_rect2d (Tensor S) xlim ylim (int n_x) (int n_y) c =
         integrate_scores_rect2d (Tensor S') xlim ylim (int n_x) (int n_y) c"
proof -
  have len: "length S = n_y" "length S' = n_y"
    "\<And>iy. iy < n_y \<Longrightarrow> length (S ! iy) = n_x" "\<And>iy. iy < n_y \<Longrightarrow> length (S' ! iy) = n_x"
    using S S' by (simp_all add: is_field_def list_all_length)
  have sy: "map (map (\<lambda>p. p ! 1)) S = map (map (\<lambda>p. p ! 1)) S'"
  proof (rule nth_equalityI)
    show "length (map (map (\<lambda>p. p ! 1)) S) = length (map (map (\<lambda>p. p ! 1)) S')"
      using len by simp
  next
    fix iy assume "iy < length (map (map (\<lambda>p. p ! 1)) S)"
    then have iy: "iy < n_y" using len by simp
    have "map (\<lambda>p. p ! 1) (S ! iy) = map (\<lambda>p. p ! 1) (S' ! iy)"
      using iy len y_agree by (intro nth_equalityI) simp_all
    then show "map (map (\<lambda>p. p ! 1)) S ! iy = map (map (\<lambda>p. p ! 1)) S' ! iy"
      using iy len by simp
  qed
  have sx0: "map (map (\<lambda>p. p ! 0)) S ! 0 = map (map (\<lambda>p. p ! 0)) S' ! 0" if "0 < n_y"
  proof -
    have "map (\<lambda>p. p ! 0) (S ! 0) = map (\<lambda>p. p ! 0) (S' ! 0)"
      using that len x_agree by (intro nth_equalityI) simp_all
    then show ?thesis using that len by simp
  qed
  have tx: "walk_right (tx_of (map (map (\<lambda>p. p ! 0)) S) hx) ty n ixs =
            walk_right (tx_of (map (map (\<lambda>p. p ! 0)) S') hx) ty n ixs" for hx ty n ixs
  proof (intro ext walk_right_cong)
    show "length (tx_of (map (map (\<lambda>p. p ! 0)) S) hx) = length (tx_of (map (map (\<lambda>p. p ! 0)) S') hx)"
      using len by (simp add: tx_of_def)
  next
    assume "0 < length (tx_of (map (map (\<lambda>p. p ! 0)) S) hx)"
    then have "0 < n_y" using len by (simp add: tx_of_def)
    from sx0 [OF this] this len
    show "tx_of (map (map (\<lambda>p. p ! 0)) S) hx ! 0 = tx_of (map (map (\<lambda>p. p ! 0)) S') hx ! 0"
      by (simp add: tx_of_def)
  qed
  show ?thesis
    by (simp add: integrate_scores_rect2d_def select_last_ok [OF S] select_last_ok [OF S'] sy tx
        del: One_nat_def)
qed

theorem integrate_scores_rect2d_upper_x_irrelevant_witness:
  "is_field 2 2 V_example \<and> is_field 2 2 V_example_alt \<and> V_example \<noteq> V_example_alt \<and>
   integrate_scores_rect2d (Tensor V_example) (0, 2) (0, 1) 2 2 1 = Inr [[1, 5], [5, 11]] \<and>
   integrate_scores_rect2d (Tensor V_example_alt) (0, 2) (0, 1) 2 2 1 = Inr [[1, 5], [5, 11]]"
proof -
  have f: "is_field 2 2 V_example" "is_field 2 2 V_example_alt"
    by (simp_all add: is_field_def V_example_def V_example_alt_def)
  have y: "\<forall>iy ix. iy < 2 \<longrightarrow> ix < 2 \<longrightarrow> V_example ! iy ! ix ! 1 = V_example_alt ! iy ! ix ! 1"
    by (auto simp: V_example_def V_example_alt_def less_2_cases_iff)
  have x: "\<forall>ix. ix < 2 \<longrightarrow> V_example ! 0 ! ix ! 0 = V_example_alt ! 0 ! ix ! 0"
    by (auto simp: V_example_def V_example_alt_def less_2_cases_iff)
  have v: "integrate_scores_rect2d (Tensor V_example) (0, 2) (0, 1) 2 2 1 = Inr [[1, 5], [5, 11]]"
    by (rule V_example_integral)
  have "integrate_scores_rect2d (Tensor V_example) (0, 2) (0, 1) (int 2) (int 2) 1 =
        integrate_scores_rect2d (Tensor V_example_alt) (0, 2) (0, 1) (int 2) (int 2) 1"
    by (rule integrate_scores_rect2d_upper_x_irrelevant [OF f y x])
  then show ?thesis using f v by (simp add: V_example_def V_example_alt_def)
qed

section \<open>The losses: results\<close>

lemma map2_nth_upt:
  "length xs = n \<Longrightarrow> length ys = n \<Longrightarrow> map2 f xs ys = map (\<lambda>k. f (xs ! k) (ys ! k)) [0..<n]"
  by (rule nth_equalityI) simp_all

lemma map_nth_upt: "length xs = n \<Longrightarrow> map f xs = map (\<lambda>k. f (xs ! k)) [0..<n]"
  by (rule nth_equalityI) simp_all

lemma sequence_e_Inr: "sequence_e (map (\<lambda>k. Inr (g k)) ks) = Inr (map g ks)"
  by (induction ks) simp_all

lemma lift2_Fin [simp]: "lift2 f (Fin p) (Fin q) = Fin (f p q)"
  by (simp add: lift2_def)

lemma lift2_NonFinite [simp]: "lift2 f NonFinite b = NonFinite" "lift2 f a NonFinite = NonFinite"
  by (simp_all add: lift2_def split: fval.splits)

lemma fsum_Fin: "fsum (map (\<lambda>k. Fin (g k)) ks) = Fin (sum_list (map g ks))"
  by (induction ks) (simp_all add: fsum_def)

lemma fmean_Fin:
  "ks \<noteq> [] \<Longrightarrow> fmean (map (\<lambda>k. Fin (g k)) ks) = Fin (sum_list (map g ks) / real (length ks))"
  by (simp add: fmean_def fsum_Fin)

lemma fmean_Nil [simp]: "fmean [] = NonFinite"
  by (simp add: fmean_def)

lemma noisy_eq:
  "map2 (+) xk (map ((\<lambda>e. e * s) \<circ> e') [0..<length xk]) = noisy xk s e'"
  by (rule nth_equalityI) (simp_all add: noisy_def mult.commute)

lemma length_noisy [simp]: "length (noisy xk s e) = length xk"
  by (simp add: noisy_def)

lemma dsm_xn:
  "map2 (map2 (+)) x (map (map (\<lambda>e. e * s)) (randn_like eps x)) =
   map (\<lambda>k. noisy (x ! k) s (eps k)) [0..<length x]"
  by (rule nth_equalityI) (simp_all add: randn_like_def noisy_eq)

lemma dsm_targets:
  assumes "s \<noteq> 0"
  shows "map (map (\<lambda>d. (1 / s\<^sup>2) * d))
       (map2 (map2 (-)) x (map (\<lambda>k. noisy (x ! k) s (eps k)) [0..<length x])) =
     map (\<lambda>k. dsm_target (x ! k) (noisy (x ! k) s (eps k)) s) [0..<length x]"
proof (rule nth_equalityI)
  show "length (map (map (\<lambda>d. (1 / s\<^sup>2) * d))
       (map2 (map2 (-)) x (map (\<lambda>k. noisy (x ! k) s (eps k)) [0..<length x]))) =
     length (map (\<lambda>k. dsm_target (x ! k) (noisy (x ! k) s (eps k)) s) [0..<length x])"
    by simp
next
  fix k assume "k < length (map (map (\<lambda>d. (1 / s\<^sup>2) * d))
       (map2 (map2 (-)) x (map (\<lambda>k. noisy (x ! k) s (eps k)) [0..<length x])))"
  then have k: "k < length x" by simp
  have "map (\<lambda>d. (1 / s\<^sup>2) * d) (map2 (-) (x ! k) (noisy (x ! k) s (eps k))) =
        dsm_target (x ! k) (noisy (x ! k) s (eps k)) s"
    by (rule nth_equalityI) (simp_all add: dsm_target_def field_simps)
  then show "map (map (\<lambda>d. (1 / s\<^sup>2) * d))
       (map2 (map2 (-)) x (map (\<lambda>k. noisy (x ! k) s (eps k)) [0..<length x])) ! k =
     map (\<lambda>k. dsm_target (x ! k) (noisy (x ! k) s (eps k)) s) [0..<length x] ! k"
    using k by simp
qed

lemma length_dsm_target [simp]: "length (dsm_target xk xnk s) = length xk"
  by (simp add: dsm_target_def)

lemma broadcast2_same:
  "length a = length b \<Longrightarrow> broadcast2 f a b = Inr (map (\<lambda>i. f (a ! i) (b ! i)) [0..<length b])"
  by (simp add: broadcast2_def map2_nth_upt)

lemma dsm_loss_value:
  assumes s: "s \<noteq> 0"
    and shape: "\<forall>k<length x. length (f (noisy (x ! k) s (eps k))) = length (x ! k)"
  shows "dsm_loss f x s eps = Inr (if x = [] then NonFinite else Fin (dsm_spec f x s eps))"
proof -
  let ?B = "length x"
  let ?xn = "\<lambda>k. noisy (x ! k) s (eps k)"
  let ?t = "\<lambda>k. dsm_target (x ! k) (?xn k) s"
  have m2: "map2 (broadcast2 (-)) (map f (map ?xn [0..<?B])) (map ?t [0..<?B]) =
        map (\<lambda>k. Inr (map (\<lambda>i. f (?xn k) ! i - ?t k ! i) [0..<length (x ! k)])) [0..<?B]"
    using shape by (intro nth_equalityI) (simp_all add: broadcast2_same)
  have "dsm_loss f x s eps =
        bind_e (sequence_e (map2 (broadcast2 (-)) (map f (map ?xn [0..<?B])) (map ?t [0..<?B])))
          (\<lambda>d. Inr (lift2 (*) (Fin 0.5) (fmean (map (\<lambda>r. Fin (sum_list (map (\<lambda>v. v\<^sup>2) r))) d))))"
    unfolding dsm_loss_def Let_def dsm_xn dsm_targets [OF s] using s by simp
  also have "\<dots> = Inr (lift2 (*) (Fin 0.5)
        (fmean (map (\<lambda>k. Fin (sq_dist (length (x ! k)) (f (?xn k)) (?t k))) [0..<?B])))"
    unfolding m2 sequence_e_Inr bind_e_Inr by (simp add: comp_def sq_dist_def)
  also have "\<dots> = Inr (if x = [] then NonFinite else Fin (dsm_spec f x s eps))"
    by (simp add: fmean_Fin dsm_spec_def)
  finally show ?thesis .
qed


lemma ncsm_xn:
  "length cs = length x \<Longrightarrow>
   map2 (map2 (+)) x (map2 (\<lambda>r s. map (\<lambda>e. e * s) r) (randn_like eps x) cs) =
   map (\<lambda>k. noisy (x ! k) (cs ! k) (eps k)) [0..<length x]"
  by (rule nth_equalityI) (simp_all add: randn_like_def noisy_eq)

lemma ncsm_targets:
  assumes "length cs = length x"
  shows "map2 (\<lambda>s r. map (\<lambda>d. lift2 (*) (frecip (s\<^sup>2)) (Fin d)) r) cs
           (map2 (map2 (-)) x (map (\<lambda>k. noisy (x ! k) (cs ! k) (eps k)) [0..<length x])) =
         map (\<lambda>k. map (\<lambda>i. lift2 (*) (frecip ((cs ! k)\<^sup>2))
                               (Fin (x ! k ! i - noisy (x ! k) (cs ! k) (eps k) ! i)))
                      [0..<length (x ! k)]) [0..<length x]"
proof (rule nth_equalityI)
  show "length (map2 (\<lambda>s r. map (\<lambda>d. lift2 (*) (frecip (s\<^sup>2)) (Fin d)) r) cs
           (map2 (map2 (-)) x (map (\<lambda>k. noisy (x ! k) (cs ! k) (eps k)) [0..<length x]))) =
        length (map (\<lambda>k. map (\<lambda>i. lift2 (*) (frecip ((cs ! k)\<^sup>2))
                               (Fin (x ! k ! i - noisy (x ! k) (cs ! k) (eps k) ! i)))
                      [0..<length (x ! k)]) [0..<length x])"
    using assms by simp
next
  fix k assume "k < length (map2 (\<lambda>s r. map (\<lambda>d. lift2 (*) (frecip (s\<^sup>2)) (Fin d)) r) cs
           (map2 (map2 (-)) x (map (\<lambda>k. noisy (x ! k) (cs ! k) (eps k)) [0..<length x])))"
  then have k: "k < length x" using assms by simp
  have "map (\<lambda>d. lift2 (*) (frecip ((cs ! k)\<^sup>2)) (Fin d))
          (map2 (-) (x ! k) (noisy (x ! k) (cs ! k) (eps k))) =
        map (\<lambda>i. lift2 (*) (frecip ((cs ! k)\<^sup>2))
                   (Fin (x ! k ! i - noisy (x ! k) (cs ! k) (eps k) ! i))) [0..<length (x ! k)]"
    by (rule nth_equalityI) simp_all
  then show "map2 (\<lambda>s r. map (\<lambda>d. lift2 (*) (frecip (s\<^sup>2)) (Fin d)) r) cs
           (map2 (map2 (-)) x (map (\<lambda>k. noisy (x ! k) (cs ! k) (eps k)) [0..<length x])) ! k =
         map (\<lambda>k. map (\<lambda>i. lift2 (*) (frecip ((cs ! k)\<^sup>2))
                               (Fin (x ! k ! i - noisy (x ! k) (cs ! k) (eps k) ! i)))
                      [0..<length (x ! k)]) [0..<length x] ! k"
    using k assms by simp
qed

lemma ncsm_sample_Fin:
  assumes "c \<noteq> 0" "length (f (noisy xk c e) l) = length xk"
  shows "lift2 (*)
          (lift2 (*) (Fin 0.5)
             (fsum (map (\<lambda>v. lift2 (*) v v)
                (map (\<lambda>i. lift2 (-) (Fin (f (noisy xk c e) l ! i))
                            (map (\<lambda>i. lift2 (*) (frecip (c\<^sup>2)) (Fin (xk ! i - noisy xk c e ! i)))
                               [0..<length xk] ! i))
                   [0..<length xk]))))
          (Fin (c\<^sup>2)) = Fin (ncsm_sample f xk l c e)"
proof -
  have "map (\<lambda>v. lift2 (*) v v)
          (map (\<lambda>i. lift2 (-) (Fin (f (noisy xk c e) l ! i))
                      (map (\<lambda>i. lift2 (*) (frecip (c\<^sup>2)) (Fin (xk ! i - noisy xk c e ! i)))
                         [0..<length xk] ! i))
             [0..<length xk]) =
        map (\<lambda>i. Fin ((f (noisy xk c e) l ! i - dsm_target xk (noisy xk c e) c ! i)\<^sup>2))
          [0..<length xk]"
    using assms(1)
    by (intro nth_equalityI) (simp_all add: frecip_def dsm_target_def power2_eq_square field_simps)
  then show ?thesis
    by (simp only: fsum_Fin lift2_Fin ncsm_sample_def sq_dist_def) (simp add: field_simps)
qed

lemma ncsm_loss_fmean:
  assumes K: "sigmae \<noteq> []"
    and shape: "\<forall>k<length x. length (f (noisy (x ! k) (sigmae ! level rng sigmae k) (eps k))
                                      (level rng sigmae k)) = length (x ! k)"
  shows "\<exists>ls. ncsm_loss f x sigmae rng eps = Inr (fmean ls) \<and> length ls = length x \<and>
           (\<forall>k<length x. sigmae ! level rng sigmae k \<noteq> 0 \<longrightarrow>
              ls ! k = Fin (ncsm_sample f (x ! k) (level rng sigmae k)
                              (sigmae ! level rng sigmae k) (eps k)))"
proof -
  let ?B = "length x"
  let ?K = "length sigmae"
  define ids where "ids = map (\<lambda>k. rng k mod ?K) [0..<?B]"
  define cs where "cs = map (\<lambda>i. sigmae ! i) ids"
  have lcs: "length cs = ?B" by (simp add: cs_def ids_def)
  have csk: "\<And>k. k < ?B \<Longrightarrow> cs ! k = sigmae ! level rng sigmae k"
    by (simp add: cs_def ids_def level_def)
  have idk: "length ids = ?B" "\<And>k. k < ?B \<Longrightarrow> ids ! k = level rng sigmae k"
    by (simp_all add: ids_def level_def)
  let ?xn = "\<lambda>k. noisy (x ! k) (cs ! k) (eps k)"
  let ?t = "\<lambda>k. map (\<lambda>i. lift2 (*) (frecip ((cs ! k)\<^sup>2)) (Fin (x ! k ! i - ?xn k ! i))) [0..<length (x ! k)]"
  let ?d = "\<lambda>k. map (\<lambda>i. lift2 (-) (Fin (f (?xn k) (ids ! k) ! i)) (?t k ! i)) [0..<length (x ! k)]"
  define ls where "ls = map2 (\<lambda>l s. lift2 (*) l (Fin s))
        (map (\<lambda>r. lift2 (*) (Fin 0.5) (fsum (map (\<lambda>v. lift2 (*) v v) r))) (map ?d [0..<?B]))
        (map (\<lambda>s. s\<^sup>2) cs)"
  have r: "randint rng ?K ?B = Inr ids" using K by (simp add: randint_def ids_def)
  have sc: "map2 f (map ?xn [0..<?B]) ids = map (\<lambda>k. f (?xn k) (ids ! k)) [0..<?B]"
    using idk by (intro nth_equalityI) simp_all
  have m2: "map2 (broadcast2 (\<lambda>s t. lift2 (-) (Fin s) t)) (map (\<lambda>k. f (?xn k) (ids ! k)) [0..<?B])
              (map ?t [0..<?B]) = map (\<lambda>k. Inr (?d k)) [0..<?B]"
    using shape by (intro nth_equalityI) (simp_all add: broadcast2_same csk idk)
  have "ncsm_loss f x sigmae rng eps =
        bind_e (sequence_e (map2 (broadcast2 (\<lambda>s t. lift2 (-) (Fin s) t))
                  (map (\<lambda>k. f (?xn k) (ids ! k)) [0..<?B]) (map ?t [0..<?B])))
          (\<lambda>d. Inr (fmean (map2 (\<lambda>l s. lift2 (*) l (Fin s))
                 (map (\<lambda>r. lift2 (*) (Fin 0.5) (fsum (map (\<lambda>v. lift2 (*) v v) r))) d)
                 (map (\<lambda>s. s\<^sup>2) cs))))"
    unfolding ncsm_loss_def r bind_e_Inr Let_def cs_def [symmetric] ncsm_xn [OF lcs]
      ncsm_targets [OF lcs] sc by (rule refl)
  also have "\<dots> = Inr (fmean ls)"
    unfolding m2 sequence_e_Inr bind_e_Inr ls_def by (rule refl)
  finally have 1: "ncsm_loss f x sigmae rng eps = Inr (fmean ls)" .
  have 2: "length ls = ?B" by (simp add: ls_def lcs)
  have 3: "ls ! k = Fin (ncsm_sample f (x ! k) (level rng sigmae k) (sigmae ! level rng sigmae k) (eps k))"
    if k: "k < ?B" and nz: "sigmae ! level rng sigmae k \<noteq> 0" for k
  proof -
    have "ls ! k = lift2 (*) (lift2 (*) (Fin 0.5) (fsum (map (\<lambda>v. lift2 (*) v v) (?d k))))
                     (Fin ((cs ! k)\<^sup>2))"
      using k lcs by (simp add: ls_def)
    also have "\<dots> = Fin (ncsm_sample f (x ! k) (ids ! k) (cs ! k) (eps k))"
      using nz shape k by (intro ncsm_sample_Fin) (simp_all add: csk idk)
    finally show ?thesis using k by (simp add: csk idk)
  qed
  show ?thesis using 1 2 3 by blast
qed

lemma ncsm_loss_value:
  assumes K: "sigmae \<noteq> []"
    and nz: "\<forall>k<length x. sigmae ! level rng sigmae k \<noteq> 0"
    and shape: "\<forall>k<length x. length (f (noisy (x ! k) (sigmae ! level rng sigmae k) (eps k))
                                      (level rng sigmae k)) = length (x ! k)"
  shows "ncsm_loss f x sigmae rng eps =
         Inr (if x = [] then NonFinite else Fin (ncsm_spec f x sigmae rng eps))"
proof -
  from ncsm_loss_fmean [OF K shape]
  obtain ls where ls: "ncsm_loss f x sigmae rng eps = Inr (fmean ls)" "length ls = length x"
    "\<And>k. k < length x \<Longrightarrow> sigmae ! level rng sigmae k \<noteq> 0 \<Longrightarrow>
        ls ! k = Fin (ncsm_sample f (x ! k) (level rng sigmae k) (sigmae ! level rng sigmae k) (eps k))"
    by blast
  have "ls = map (\<lambda>k. Fin (ncsm_sample f (x ! k) (level rng sigmae k)
                          (sigmae ! level rng sigmae k) (eps k))) [0..<length x]"
    using ls(2,3) nz by (intro nth_equalityI) simp_all
  then show ?thesis using ls(1) by (simp add: fmean_Fin ncsm_spec_def)
qed


lemma sequence_e_cong:
  "(\<And>k. k \<in> set ks \<Longrightarrow> f k = g k) \<Longrightarrow> sequence_e (map f ks) = sequence_e (map g ks)"
  by (rule arg_cong [where f = sequence_e]) simp

lemma diag4_full:
  "diag4 (full_jacobian m x) (length x) i =
   sequence_e (map (\<lambda>k. bind_e (nth_e (jac m (x ! k)) i) (\<lambda>r. nth_e r i)) [0..<length x])"
  unfolding diag4_def
proof (rule sequence_e_cong)
  fix k assume "k \<in> set [0..<length x]"
  then have k: "k < length x" by simp
  show "bind_e (nth_e (full_jacobian m x) k) (\<lambda>a. bind_e (nth_e a i) (\<lambda>b.
          bind_e (nth_e b k) (\<lambda>c. nth_e c i))) =
        bind_e (nth_e (jac m (x ! k)) i) (\<lambda>r. nth_e r i)"
    using k by (cases "i < length (jac m (x ! k))") (simp_all add: full_jacobian_def nth_e_def)
qed

lemma diag3_batched:
  assumes "i < n"
  shows "diag3 (batched_jacobian m x n) (length x) i =
   sequence_e (map (\<lambda>k. bind_e (nth_e (jac m (x ! k)) i) (\<lambda>r. nth_e r i)) [0..<length x])"
  unfolding diag3_def
proof (rule sequence_e_cong)
  fix k assume "k \<in> set [0..<length x]"
  then have k: "k < length x" by simp
  show "bind_e (nth_e (batched_jacobian m x n) k) (\<lambda>a. bind_e (nth_e a i) (\<lambda>b. nth_e b i)) =
        bind_e (nth_e (jac m (x ! k)) i) (\<lambda>r. nth_e r i)"
    using k assms
    by (cases "i < length (jac m (x ! k))") (simp_all add: batched_jacobian_def nth_e_def)
qed

lemma trace_2: "square 2 J \<Longrightarrow> trace J = J ! 0 ! 0 + J ! 1 ! 1"
  by (simp add: trace_def square_def numeral_2_eq_2)

lemma diag_entry_square:
  "square 2 J \<Longrightarrow> i < 2 \<Longrightarrow> bind_e (nth_e J i) (\<lambda>r. nth_e r i) = Inr (J ! i ! i)"
  by (simp add: square_def nth_e_def list_all_length)

lemma ism_trace_2d:
  assumes "\<forall>k<length x. square 2 (jac m (x ! k))"
  shows "ism_trace m x = Inr (map (\<lambda>xk. trace (jac m xk)) x)"
proof -
  have d: "diag4 (full_jacobian m x) (length x) i =
           Inr (map (\<lambda>k. jac m (x ! k) ! i ! i) [0..<length x])" if "i < 2" for i
  proof -
    have "sequence_e (map (\<lambda>k. bind_e (nth_e (jac m (x ! k)) i) (\<lambda>r. nth_e r i)) [0..<length x]) =
          sequence_e (map (\<lambda>k. Inr (jac m (x ! k) ! i ! i)) [0..<length x])"
      using assms that by (intro sequence_e_cong) (simp add: diag_entry_square)
    then show ?thesis by (simp add: diag4_full sequence_e_Inr)
  qed
  have "map2 (+) (map (\<lambda>k. jac m (x ! k) ! 0 ! 0) [0..<length x])
                 (map (\<lambda>k. jac m (x ! k) ! 1 ! 1) [0..<length x]) =
        map (\<lambda>xk. trace (jac m xk)) x"
    using assms by (intro nth_equalityI) (simp_all add: trace_2)
  then show ?thesis by (simp add: ism_trace_def Let_def d del: One_nat_def)
qed

lemma sq_norm_sum_list: "sum_list (map (\<lambda>v. v\<^sup>2) s) = sq_norm s"
proof -
  have "map (\<lambda>v. v\<^sup>2) s = map (\<lambda>i. (s ! i)\<^sup>2) [0..<length s]"
    by (rule map_nth_upt) simp
  then show ?thesis by (simp add: sq_norm_def)
qed

lemma ism_loss_2d:
  assumes "\<forall>k<length x. square 2 (jac m (x ! k))"
  shows "ism_loss m x = Inr (if x = [] then NonFinite else Fin (ism_spec m x))"
proof -
  have "map2 (\<lambda>t s. t + 0.5 * sum_list (map (\<lambda>v. v\<^sup>2) s)) (map (\<lambda>xk. trace (jac m xk)) x)
          (map (score m) x) =
        map (\<lambda>k. trace (jac m (x ! k)) + 0.5 * sq_norm (score m (x ! k))) [0..<length x]"
    by (intro nth_equalityI) (simp_all add: sq_norm_sum_list)
  then have "ism (map (\<lambda>xk. trace (jac m xk)) x) (map (score m) x) =
        fmean (map (\<lambda>k. Fin (trace (jac m (x ! k)) + 0.5 * sq_norm (score m (x ! k)))) [0..<length x])"
    by (simp add: ism_def comp_def)
  then show ?thesis
    by (simp add: ism_loss_def ism_trace_2d [OF assms] fmean_Fin ism_spec_def)
qed

lemma normal_model_jacobian: "is_jacobian normal_model"
  unfolding is_jacobian_def
proof (intro allI impI)
  fix x :: "real list" and i j
  assume i: "i < length x" and j: "j < length x"
  show "((\<lambda>t. score normal_model (x[j := t]) ! i) has_real_derivative
          jac normal_model x ! i ! j) (at (x ! j))"
  proof (cases "i = j")
    case True
    have "((\<lambda>t. - t) has_real_derivative - 1) (at (x ! j))"
      by (auto intro!: derivative_eq_intros)
    then show ?thesis using True i j by (simp add: normal_model_def)
  next
    case False
    then show ?thesis using i j by (simp add: normal_model_def)
  qed
qed

text \<open>
  C1, for \<open>D = 2\<close>: for a batch of shape \<open>B \<times> 2\<close> (with \<open>2 \<times> 2\<close> Jacobians) the trace
  computation of \<open>ism_loss\<close> and that of \<open>ism_loss_fast\<close> both return the length-\<open>B\<close>
  vector \<open>tr\<close> with \<open>tr[k] = trace(J\<^sub>f(X[k]))\<close>. Both read the diagonal entries 0 and 1
  only.
\<close>

theorem ism_trace_is_trace_2d:
  assumes "\<forall>k<length x. length (x ! k) = 2"
    and "\<forall>k<length x. square (length (x ! k)) (jac m (x ! k))"
  shows "ism_trace m x = Inr (map (\<lambda>xk. trace (jac m xk)) x) \<and>
         ism_trace_fast m x = Inr (map (\<lambda>xk. trace (jac m xk)) x)"
proof -
  have sq: "\<forall>k<length x. square 2 (jac m (x ! k))" using assms by simp
  have "ism_trace_fast m x = ism_trace m x"
    by (simp add: ism_trace_def ism_trace_fast_def diag4_full diag3_batched Let_def)
  then show ?thesis using ism_trace_2d [OF sq] by simp
qed

theorem ism_trace_is_trace_2d_witness:
  "ism_trace normal_model [[1, 2], [3, 4]] = Inr [- 2, - 2] \<and>
   ism_trace_fast normal_model [[1, 2], [3, 4]] = Inr [- 2, - 2] \<and>
   map (\<lambda>xk. trace (jac normal_model xk)) [[1, 2], [3, 4]] = [- 2, - 2]"
proof -
  have 1: "\<forall>k<length [[1, 2], [3, 4 :: real]]. length ([[1, 2], [3, 4 :: real]] ! k) = 2"
    by (auto simp: less_Suc_eq)
  have 2: "\<forall>k<length [[1, 2], [3, 4 :: real]].
      square (length ([[1, 2], [3, 4 :: real]] ! k)) (jac normal_model ([[1, 2], [3, 4]] ! k))"
    by (auto simp: less_Suc_eq square_def normal_model_def upt_2)
  have 3: "map (\<lambda>xk. trace (jac normal_model xk)) [[1, 2], [3, 4]] = [- 2, - 2]"
    by (simp add: trace_def normal_model_def upt_2)
  show ?thesis using ism_trace_is_trace_2d [OF 1 2] 3 by simp
qed

text \<open>
  C1 does not hold for \<open>D = 3\<close>: at the one-row batch \<open>[[0, 0, 0]]\<close> and the model
  \<open>f(x) = - x\<close> both strategies return \<open>[- 2]\<close>, the trace of the Jacobian is \<open>- 3\<close>.
\<close>

theorem ism_trace_3d_counterexample:
  "ism_trace normal_model [[0, 0, 0]] = Inr [- 2] \<and>
   ism_trace_fast normal_model [[0, 0, 0]] = Inr [- 2] \<and>
   map (\<lambda>xk. trace (jac normal_model xk)) [[0, 0, 0]] = [- 3]"
  by (simp add: ism_trace_def ism_trace_fast_def full_jacobian_def batched_jacobian_def
      diag4_def diag3_def nth_e_def normal_model_def trace_def upt_3 Let_def)

text \<open>
  C3, for \<open>D = 2\<close>: for a non-empty batch of shape \<open>B \<times> 2\<close> (with \<open>2 \<times> 2\<close> Jacobians) the
  implicit score matching loss is the batch mean of \<open>tr(J\<^sub>f(x\<^sub>k)) + 0.5 ||f(x\<^sub>k)||\<^sup>2\<close>, the
  squared norm summed over the output dimensions before the mean is taken.
\<close>

theorem ism_loss_spec_2d:
  assumes "x \<noteq> []"
    and "\<forall>k<length x. length (x ! k) = 2"
    and "\<forall>k<length x. square (length (x ! k)) (jac m (x ! k))"
  shows "ism_loss m x = Inr (Fin (ism_spec m x))"
proof -
  have sq: "\<forall>k<length x. square 2 (jac m (x ! k))" using assms(2,3) by simp
  show ?thesis using ism_loss_2d [OF sq] assms(1) by simp
qed

theorem ism_loss_spec_2d_witness:
  "ism_loss normal_model [[1, 2], [3, 4]] = Inr (Fin (11 / 2)) \<and>
   ism_spec normal_model [[1, 2], [3, 4]] = 11 / 2"
proof -
  have 0: "[[1, 2], [3, 4 :: real]] \<noteq> []" by simp
  have 1: "\<forall>k<length [[1, 2], [3, 4 :: real]]. length ([[1, 2], [3, 4 :: real]] ! k) = 2"
    by (auto simp: less_Suc_eq)
  have 2: "\<forall>k<length [[1, 2], [3, 4 :: real]].
      square (length ([[1, 2], [3, 4 :: real]] ! k)) (jac normal_model ([[1, 2], [3, 4]] ! k))"
    by (auto simp: less_Suc_eq square_def normal_model_def upt_2)
  have 3: "ism_spec normal_model [[1, 2], [3, 4]] = 11 / 2"
    by (simp add: ism_spec_def trace_def sq_norm_def normal_model_def upt_2)
  show ?thesis using ism_loss_spec_2d [OF 0 1 2] 3 by simp
qed

text \<open>
  C3 does not hold for \<open>D = 3\<close>: at the batch \<open>[[1, 2, 3]]\<close> and the model \<open>f(x) = - x\<close>
  the loss is \<open>- 2 + 7 = 5\<close>, the mean of \<open>tr(J\<^sub>f(x\<^sub>k)) + 0.5 ||f(x\<^sub>k)||\<^sup>2\<close> is
  \<open>- 3 + 7 = 4\<close>.
\<close>

theorem ism_loss_3d_counterexample:
  "ism_loss normal_model [[1, 2, 3]] = Inr (Fin 5) \<and> ism_spec normal_model [[1, 2, 3]] = 4"
  by (simp add: ism_loss_def ism_def ism_trace_def full_jacobian_def
      diag4_def nth_e_def normal_model_def trace_def upt_3 Let_def fmean_def fsum_def
      ism_spec_def sq_norm_def)

text \<open>
  C7: for every score model and every batch the trace computation of \<open>ism_loss\<close> (on the
  full Jacobian) and that of \<open>ism_loss_fast\<close> (on the batched Jacobian) give the same
  outcome, and so do the two losses.
\<close>

theorem ism_trace_strategies_agree:
  "ism_trace m x = ism_trace_fast m x \<and> ism_loss m x = ism_loss_fast m x"
  by (simp add: ism_trace_def ism_trace_fast_def ism_loss_def ism_loss_fast_def
      diag4_full diag3_batched Let_def)

theorem ism_trace_strategies_agree_witness:
  "ism_trace normal_model [[1, 2], [3, 4]] = ism_trace_fast normal_model [[1, 2], [3, 4]] \<and>
   ism_loss normal_model [[1, 2], [3, 4]] = ism_loss_fast normal_model [[1, 2], [3, 4]]"
  by (rule ism_trace_strategies_agree)

text \<open>
  C4: for every score model \<open>f\<close>, non-empty batch \<open>x\<close>, \<open>\<sigma> > 0\<close> and every draw \<open>eps\<close> of the
  noise, the denoising score matching loss is 0.5 times the batch mean of
  \<open>||f(x\<^sub>k + \<sigma> \<epsilon>\<^sub>k) - t\<^sub>k||\<^sup>2\<close> with \<open>t\<^sub>k = - ((x\<^sub>k + \<sigma> \<epsilon>\<^sub>k) - x\<^sub>k) / \<sigma>\<^sup>2\<close>, the squared norm
  summed over the dimensions of the row.
\<close>

theorem dsm_loss_spec:
  assumes "x \<noteq> []" and "0 < \<sigma>" and "is_score_model f"
  shows "dsm_loss f x \<sigma> eps = Inr (Fin (dsm_spec f x \<sigma> eps))"
proof -
  have "\<forall>k<length x. length (f (noisy (x ! k) \<sigma> (eps k))) = length (x ! k)"
    using assms(3) by (simp add: is_score_model_def)
  from dsm_loss_value [OF _ this] assms(1,2) show ?thesis by simp
qed

theorem dsm_loss_spec_witness:
  "is_score_model (score normal_model) \<and>
   dsm_loss (score normal_model) [[1, 2], [3, 4]] 2 example_noise = Inr (Fin (129 / 8))"
proof -
  have 1: "is_score_model (score normal_model)"
    by (simp add: is_score_model_def normal_model_def)
  have 2: "dsm_spec (score normal_model) [[1, 2], [3, 4]] 2 example_noise = 129 / 8"
    by (simp add: dsm_spec_def sq_dist_def noisy_def dsm_target_def normal_model_def
        example_noise_def upt_2 power2_eq_square)
  show ?thesis using dsm_loss_spec [of "[[1, 2], [3, 4]]" 2 "score normal_model" example_noise] 1 2
    by simp
qed

text \<open>
  C5: for every conditional score model, non-empty batch and schedule of \<open>K\<close> positive
  levels, and for every draw of the level indices and of the noise: sample \<open>k\<close> gets its
  own index \<open>level k\<close> in \<open>{0..<K}\<close>, is noised at that level, its denoising residual
  \<open>0.5 ||f(x\<^sub>k + \<sigma> \<epsilon>\<^sub>k, level k) - t\<^sub>k||\<^sup>2\<close> is multiplied by \<open>\<sigma>\<^sup>2\<close> of its own level, and the
  loss is the batch mean of the weighted residuals.
\<close>

theorem ncsm_loss_spec:
  assumes "x \<noteq> []" and "sigmae \<noteq> []" and "\<forall>s\<in>set sigmae. 0 < s"
    and "is_cond_score_model f"
  shows "ncsm_loss f x sigmae rng eps = Inr (Fin (ncsm_spec f x sigmae rng eps)) \<and>
         (\<forall>k<length x. level rng sigmae k < length sigmae)"
proof -
  have lv: "level rng sigmae k < length sigmae" for k
    using assms(2) by (simp add: level_def)
  have nz: "\<forall>k<length x. sigmae ! level rng sigmae k \<noteq> 0"
    using assms(3) lv by (metis less_irrefl nth_mem)
  have sh: "\<forall>k<length x. length (f (noisy (x ! k) (sigmae ! level rng sigmae k) (eps k))
                                     (level rng sigmae k)) = length (x ! k)"
    using assms(4) by (simp add: is_cond_score_model_def)
  show ?thesis using ncsm_loss_value [OF assms(2) nz sh] assms(1) lv by simp
qed

theorem ncsm_loss_spec_witness:
  "is_cond_score_model cond_normal_score \<and>
   level example_rng [1, 2] 0 = 0 \<and> level example_rng [1, 2] 1 = 1 \<and>
   ncsm_loss cond_normal_score [[1, 2], [3, 4]] [1, 2] example_rng example_noise =
     Inr (Fin (ncsm_spec cond_normal_score [[1, 2], [3, 4]] [1, 2] example_rng example_noise)) \<and>
   ncsm_spec cond_normal_score [[1, 2], [3, 4]] [1, 2] example_rng example_noise = 25 / 2"
proof -
  have 1: "is_cond_score_model cond_normal_score"
    by (simp add: is_cond_score_model_def cond_normal_score_def)
  have 2: "level example_rng [1, 2] 0 = 0" "level example_rng [1, 2] (Suc 0) = Suc 0"
    by (simp_all add: level_def example_rng_def numeral_2_eq_2 [symmetric])
  have 3: "ncsm_spec cond_normal_score [[1, 2], [3, 4]] [1, 2] example_rng example_noise = 25 / 2"
    by (simp add: ncsm_spec_def ncsm_sample_def 2 sq_dist_def noisy_def dsm_target_def
        cond_normal_score_def example_noise_def upt_2 power2_eq_square)
  have 4: "\<forall>s\<in>set [1, 2 :: real]. 0 < s" by simp
  show ?thesis
    using ncsm_loss_spec [of "[[1, 2], [3, 4]]" "[1, 2]" cond_normal_score example_rng example_noise]
      1 2 3 4 by simp
qed

lemma sum_list_weighted_half:
  "(\<Sum>k\<leftarrow>ks. c * (0.5 * g k)) = c * (0.5 * (\<Sum>k\<leftarrow>ks. g k :: real))"
  by (induction ks) (simp_all add: algebra_simps)

lemma ncsm_spec_single_level:
  "ncsm_spec f x [\<sigma>] rng eps = \<sigma>\<^sup>2 * dsm_spec (\<lambda>r. f r 0) x \<sigma> eps"
proof -
  define G where "G = (\<lambda>k. sq_dist (length (x ! k)) (f (noisy (x ! k) \<sigma> (eps k)) 0)
                              (dsm_target (x ! k) (noisy (x ! k) \<sigma> (eps k)) \<sigma>))"
  have n: "ncsm_spec f x [\<sigma>] rng eps = (\<Sum>k\<leftarrow>[0..<length x]. \<sigma>\<^sup>2 * (0.5 * G k)) / real (length x)"
    unfolding ncsm_spec_def level_def ncsm_sample_def G_def by simp
  have d: "dsm_spec (\<lambda>r. f r 0) x \<sigma> eps = 0.5 * ((\<Sum>k\<leftarrow>[0..<length x]. G k) / real (length x))"
    unfolding dsm_spec_def G_def by (rule refl)
  show ?thesis unfolding n d sum_list_weighted_half by simp
qed

text \<open>
  C6: for every conditional score model, batch and single level \<open>\<sigma> > 0\<close>, the NCSM loss
  on the schedule \<open>[\<sigma>]\<close> is \<open>\<sigma>\<^sup>2\<close> times the DSM loss at scale \<open>\<sigma>\<close> of the model at level 0,
  for the same noise draw.
\<close>

theorem ncsm_single_level_is_weighted_dsm:
  assumes "0 < \<sigma>" and "is_cond_score_model f"
  shows "\<exists>v. dsm_loss (\<lambda>r. f r 0) x \<sigma> eps = Inr v \<and>
             ncsm_loss f x [\<sigma>] rng eps = Inr (lift2 (*) (Fin (\<sigma>\<^sup>2)) v)"
proof -
  have s: "\<sigma> \<noteq> 0" using assms(1) by simp
  have sh1: "\<forall>k<length x. length (f (noisy (x ! k) \<sigma> (eps k)) 0) = length (x ! k)"
    using assms(2) by (simp add: is_cond_score_model_def)
  have lv: "level rng [\<sigma>] k = 0" for k by (simp add: level_def)
  have d: "dsm_loss (\<lambda>r. f r 0) x \<sigma> eps =
           Inr (if x = [] then NonFinite else Fin (dsm_spec (\<lambda>r. f r 0) x \<sigma> eps))"
    using s sh1 by (rule dsm_loss_value)
  have n: "ncsm_loss f x [\<sigma>] rng eps =
           Inr (if x = [] then NonFinite else Fin (ncsm_spec f x [\<sigma>] rng eps))"
    using s sh1 by (intro ncsm_loss_value) (simp_all add: lv)
  show ?thesis using d n by (simp add: ncsm_spec_single_level)
qed

theorem ncsm_single_level_is_weighted_dsm_witness:
  "is_cond_score_model cond_normal_score \<and>
   dsm_loss (\<lambda>r. cond_normal_score r 0) [[1, 2], [3, 4]] 2 example_noise = Inr (Fin (129 / 8)) \<and>
   ncsm_loss cond_normal_score [[1, 2], [3, 4]] [2] example_rng example_noise = Inr (Fin (129 / 2))"
proof -
  have 1: "is_cond_score_model cond_normal_score"
    by (simp add: is_cond_score_model_def cond_normal_score_def)
  have "dsm_loss (\<lambda>r. cond_normal_score r 0) [[1, 2], [3, 4]] 2 example_noise =
        Inr (if [[1, 2], [3, 4 :: real]] = [] then NonFinite
             else Fin (dsm_spec (\<lambda>r. cond_normal_score r 0) [[1, 2], [3, 4]] 2 example_noise))"
    by (rule dsm_loss_value) (simp_all add: cond_normal_score_def)
  moreover have "dsm_spec (\<lambda>r. cond_normal_score r 0) [[1, 2], [3, 4]] 2 example_noise = 129 / 8"
    by (simp add: dsm_spec_def sq_dist_def noisy_def dsm_target_def cond_normal_score_def
        example_noise_def upt_2 power2_eq_square)
  ultimately have 2:
    "dsm_loss (\<lambda>r. cond_normal_score r 0) [[1, 2], [3, 4]] 2 example_noise = Inr (Fin (129 / 8))"
    by simp
  from ncsm_single_level_is_weighted_dsm [of 2 cond_normal_score "[[1, 2], [3, 4]]" example_noise
      example_rng] 1
  obtain v where "dsm_loss (\<lambda>r. cond_normal_score r 0) [[1, 2], [3, 4]] 2 example_noise = Inr v"
    and 3: "ncsm_loss cond_normal_score [[1, 2], [3, 4]] [2] example_rng example_noise =
            Inr (lift2 (*) (Fin (2\<^sup>2)) v)"
    by auto
  then have "v = Fin (129 / 8)" using 2 by simp
  then show ?thesis using 1 2 3 by simp
qed

text \<open>
  C8, as far as the code supports it: for every score model and batch, \<open>dsm_loss\<close> with
  \<open>\<sigma> = 0\<close> fails with an error (ZeroDivisionError, from the Python division
  \<open>1 / sigma ** 2\<close>) instead of returning a value. Neither loss checks its arguments
  otherwise: there are calls of \<open>dsm_loss\<close> with a negative \<open>\<sigma>\<close>, calls of \<open>dsm_loss\<close> on the
  empty batch and calls of \<open>ncsm_loss\<close> with a non-positive level in the schedule that
  return a value.
\<close>

theorem dsm_loss_zero_sigma_fails:
  "dsm_loss f x 0 eps = Inl ZeroDivisionError \<and>
   (\<exists>g y \<sigma> e v. \<sigma> < 0 \<and> dsm_loss g y \<sigma> e = Inr v) \<and>
   (\<exists>g \<sigma> e v. dsm_loss g [] \<sigma> e = Inr v) \<and>
   (\<exists>g y sigmae rng e v. list_ex (\<lambda>s. s \<le> 0) sigmae \<and> ncsm_loss g y sigmae rng e = Inr v)"
proof (intro conjI)
  show "dsm_loss f x 0 eps = Inl ZeroDivisionError"
    by (simp add: dsm_loss_def)
next
  have "dsm_loss (score normal_model) [[1, 2]] (- 1) example_noise = Inr (Fin (5 / 2))"
    by (simp add: dsm_loss_def randn_like_def example_noise_def normal_model_def
        broadcast2_def fmean_def fsum_def upt_2 Let_def)
  moreover have "(- 1 :: real) < 0" by simp
  ultimately show "\<exists>g y \<sigma> e v. \<sigma> < 0 \<and> dsm_loss g y \<sigma> e = Inr v" by blast
next
  have "dsm_loss (score normal_model) [] 1 example_noise = Inr NonFinite"
    by (simp add: dsm_loss_def randn_like_def fmean_def Let_def)
  then show "\<exists>g \<sigma> e v. dsm_loss g [] \<sigma> e = Inr v" by blast
next
  have "ncsm_loss cond_normal_score [[1, 2]] [- 1] example_rng example_noise = Inr (Fin (5 / 2))"
    by (simp add: ncsm_loss_def randint_def randn_like_def example_noise_def
        cond_normal_score_def broadcast2_def frecip_def fmean_def fsum_def upt_2 Let_def)
  moreover have "list_ex (\<lambda>s. s \<le> 0) [- 1 :: real]" by simp
  ultimately show "\<exists>g y sigmae rng e v.
      list_ex (\<lambda>s. s \<le> 0) sigmae \<and> ncsm_loss g y sigmae rng e = Inr v" by blast
qed

theorem dsm_loss_zero_sigma_fails_witness:
  "dsm_loss (score normal_model) [[1, 2]] 0 example_noise = Inl ZeroDivisionError"
  using dsm_loss_zero_sigma_fails [of "score normal_model" "[[1, 2]]" example_noise]
  by simp

text \<open>
  C8 does not hold: with \<open>\<sigma> = - 1\<close> \<open>dsm_loss\<close> returns \<open>5/2\<close>, on the empty batch it
  returns the undefined mean, and \<open>ncsm_loss\<close> with the single level \<open>- 1\<close> returns \<open>5/2\<close>;
  none of the three calls raises.
\<close>

theorem dsm_negative_sigma_counterexample:
  "dsm_loss (score normal_model) [[1, 2]] (- 1) example_noise = Inr (Fin (5 / 2)) \<and>
   dsm_loss (score normal_model) [] 1 example_noise = Inr NonFinite \<and>
   ncsm_loss cond_normal_score [[1, 2]] [- 1] example_rng example_noise = Inr (Fin (5 / 2))"
  by (simp add: dsm_loss_def ncsm_loss_def randint_def randn_like_def example_noise_def
      normal_model_def cond_normal_score_def broadcast2_def frecip_def fmean_def fsum_def
      upt_2 Let_def)

end
